theory Spec2Isabelle
  imports Main
begin

section \<open>The sub-transaction barrier of dtmcli (barrier.go)\<close>

text \<open>
  A shallow embedding of \<^verbatim>\<open>src/dtmcli/barrier.go\<close>. The Go code talks to a MySQL
  database through \<^verbatim>\<open>database/sql\<close>; the embedding threads an explicit world through
  every call: the committed database, the writes pending in the open transaction, the
  outcomes scheduled for the next store operations (so that a store error or a panic can
  happen at any of them), and the trace of the operations performed.
\<close>

subsection \<open>Values\<close>

text \<open>Go \<^verbatim>\<open>error\<close> values; \<^verbatim>\<open>sql.ErrNoRows\<close> is the one the code compares against.\<close>

datatype error = ErrNoRows | Err string

text \<open>
  The value carried by a \<^verbatim>\<open>panic\<close>. \<open>PanicNil\<close> is the value of \<^verbatim>\<open>panic(nil)\<close> where the
  runtime keeps it (Go before 1.21, or \<^verbatim>\<open>GODEBUG=panicnil=1\<close>): \<^verbatim>\<open>recover()\<close> then
  returns nil, as it does when nothing panics. Where the runtime replaces it by a
  \<^verbatim>\<open>*runtime.PanicNilError\<close>, no panic carries \<open>PanicNil\<close>.
\<close>

datatype panic = PanicNil | Panic string

text \<open>
  An \<^verbatim>\<open>interface{}\<close> value as \<^verbatim>\<open>ThroughBarrierCall\<close> can hold one in \<^verbatim>\<open>res\<close>: nil,
  a \<^verbatim>\<open>common.MS\<close> literal (a string-to-string map, here the list of its entries), a
  business value, or an \<^verbatim>\<open>error\<close> stored in the interface.
\<close>

datatype 'r iface = GoNil | MS "(string \<times> string) list" | Val 'r | ErrorVal error

text \<open>How a Go call of type \<^verbatim>\<open>(interface{}, error)\<close> ends: it returns, or it panics.\<close>

datatype 'r call_result = Return "'r iface" "error option" | Panics panic

subsection \<open>TransInfo\<close>

record TransInfo =
  TransType :: string
  Gid :: string
  BranchID :: string
  BranchType :: string

definition TransInfo_String :: "TransInfo \<Rightarrow> string" where
  "TransInfo_String t =
     ''transInfo: '' @ TransType t @ '' '' @ Gid t @ '' '' @ BranchID t @ '' '' @ BranchType t"

text \<open>
  The query parameters of a \<^verbatim>\<open>gin.Context\<close>; \<^verbatim>\<open>c.Query(key)\<close> is the value of the key,
  or the empty string when the request has none.
\<close>

type_synonym gin_Context = "string \<rightharpoonup> string"

definition Query :: "gin_Context \<Rightarrow> string \<Rightarrow> string" where
  "Query c key = (case c key of None \<Rightarrow> '''' | Some v \<Rightarrow> v)"

definition TransInfoFromReq :: "gin_Context \<Rightarrow> panic + TransInfo" where
  "TransInfoFromReq c =
     (let ti = \<lparr>TransType = Query c ''trans_type'', Gid = Query c ''gid'',
                BranchID = Query c ''branch_id'', BranchType = Query c ''branch_type''\<rparr>
      in if TransType ti = '''' \<or> Gid ti = '''' \<or> BranchID ti = '''' \<or> BranchType ti = ''''
         then Inl (Panic (''invlid trans info: '' @ TransInfo_String ti))
         else Inr ti)"

subsection \<open>The database\<close>

text \<open>A row of table \<^verbatim>\<open>dtm_barrier.barrier\<close>: the columns the statements of barrier.go name.\<close>

record barrier_row =
  trans_type :: string
  gid :: string
  branch_id :: string
  branch_type :: string
  reason :: string
  result :: "string option"

text \<open>
  What \<^verbatim>\<open>*sql.DB\<close> reaches: the committed rows of the barrier table and the rest of the
  database (the business data), of any type.
\<close>

record 'b DB =
  barrier :: "barrier_row list"
  busi :: 'b

text \<open>
  Modelled from the spec: the unique key of table \<^verbatim>\<open>dtm_barrier.barrier\<close> (the schema is
  not among the sources). The spec: uniqueness is on (globalID, branchID, roleSlot), not
  including reason.
\<close>

definition same_key :: "barrier_row \<Rightarrow> barrier_row \<Rightarrow> bool" where
  "same_key r r' \<longleftrightarrow> gid r = gid r' \<and> branch_id r = branch_id r' \<and> branch_type r = branch_type r'"

text \<open>The writes a transaction holds until it commits: the two statements \<^verbatim>\<open>logExec\<close> gets.\<close>

datatype tx_write =
  WInsert barrier_row
  | WUpdate string string string string string

text \<open>
  \<^verbatim>\<open>insert ignore into dtm_barrier.barrier(trans_type, gid, branch_id, branch_type, reason)
  values(?,?,?,?,?)\<close> adds the row unless its key is taken;
  \<^verbatim>\<open>update dtm_barrier.barrier set result=? where trans_type=? and gid=? and branch_id=? and
  branch_type=?\<close> sets the result of every row that matches.
\<close>

fun apply_write :: "barrier_row list \<Rightarrow> tx_write \<Rightarrow> barrier_row list" where
  "apply_write t (WInsert r) = (if list_ex (same_key r) t then t else t @ [r])"
| "apply_write t (WUpdate sval tt g b bt) =
     map (\<lambda>r. if trans_type r = tt \<and> gid r = g \<and> branch_id r = b \<and> branch_type r = bt
              then r\<lparr>result := Some sval\<rparr> else r) t"

datatype event =
  EBegin
  | EInsert barrier_row
  | ESelect string string string string string
  | EUpdate string string string string string
  | ECall
  | ECommit
  | ERollback


text \<open>
  What is scheduled for a store operation: it succeeds, it fails with an error, or it
  panics (a driver may). When nothing is scheduled the operation succeeds.
\<close>

datatype outcome = Succeed | Fail error | Crash panic

text \<open>
  The world: the database, the writes of the open transaction, the outcomes of the next
  store operations and the operations performed so far.
\<close>

record 'b world =
  db :: "'b DB"
  pending :: "tx_write list"
  faults :: "outcome list"
  trace :: "event list"

definition next_fault :: "'b world \<Rightarrow> outcome \<times> 'b world" where
  "next_fault w = (case faults w of [] \<Rightarrow> (Succeed, w) | f # fs \<Rightarrow> (f, w\<lparr>faults := fs\<rparr>))"

text \<open>What the open transaction sees: the committed rows with its own writes applied.\<close>

definition tx_view :: "'b world \<Rightarrow> barrier_row list" where
  "tx_view w = foldl apply_write (barrier (db w)) (pending w)"

text \<open>
  A call that may panic ends in \<open>Inl\<close> of the panic value, or in \<open>Inr\<close> of what it returns.
  \<^verbatim>\<open>db.BeginTx\<close>: opens a transaction, or returns an error and opens none.
\<close>

definition BeginTx :: "'b world \<Rightarrow> (panic + error option) \<times> 'b world" where
  "BeginTx w =
     (case next_fault w of
        (Crash p, w') \<Rightarrow> (Inl p, w')
      | (Fail e, w') \<Rightarrow> (Inr (Some e), w')
      | (Succeed, w') \<Rightarrow> (Inr None, w'\<lparr>pending := [], trace := trace w' @ [EBegin]\<rparr>))"

text \<open>\<^verbatim>\<open>tx.Commit\<close> and \<^verbatim>\<open>tx.Rollback\<close>; the code ignores what they return.\<close>

definition Commit :: "'b world \<Rightarrow> 'b world" where
  "Commit w = w\<lparr>db := (db w)\<lparr>barrier := tx_view w\<rparr>, pending := [], trace := trace w @ [ECommit]\<rparr>"

definition Rollback :: "'b world \<Rightarrow> 'b world" where
  "Rollback w = w\<lparr>pending := [], trace := trace w @ [ERollback]\<rparr>"

text \<open>
  \<^verbatim>\<open>logExec\<close> with the insert statement: the driver's result is the number of rows
  affected, 1 when the row was added and 0 when its key was taken.
\<close>

definition exec_insert :: "'b world \<Rightarrow> barrier_row \<Rightarrow> (panic + error + int) \<times> 'b world" where
  "exec_insert w r =
     (case next_fault (w\<lparr>trace := trace w @ [EInsert r]\<rparr>) of
        (Crash p, w') \<Rightarrow> (Inl p, w')
      | (Fail e, w') \<Rightarrow> (Inr (Inl e), w')
      | (Succeed, w') \<Rightarrow>
          if list_ex (same_key r) (tx_view w') then (Inr (Inr 0), w')
          else (Inr (Inr 1), w'\<lparr>pending := pending w' @ [WInsert r]\<rparr>))"

text \<open>\<^verbatim>\<open>res.RowsAffected()\<close> of the MySQL driver: the count, and no error.\<close>

definition RowsAffected :: "int \<Rightarrow> int \<times> error option" where
  "RowsAffected res = (res, None)"

text \<open>\<^verbatim>\<open>logExec\<close> with the update statement; the code keeps only its error.\<close>

definition exec_update ::
  "'b world \<Rightarrow> string \<Rightarrow> string \<Rightarrow> string \<Rightarrow> string \<Rightarrow> string
     \<Rightarrow> (panic + error option) \<times> 'b world" where
  "exec_update w sval tt g b bt =
     (case next_fault (w\<lparr>trace := trace w @ [EUpdate sval tt g b bt]\<rparr>) of
        (Crash p, w') \<Rightarrow> (Inl p, w')
      | (Fail e, w') \<Rightarrow> (Inr (Some e), w')
      | (Succeed, w') \<Rightarrow> (Inr None, w'\<lparr>pending := pending w' @ [WUpdate sval tt g b bt]\<rparr>))"

text \<open>
  \<^verbatim>\<open>logQueryRow(tx, "select result from dtm_barrier.barrier where trans_type=? and gid=?
  and branch_id=? and branch_type=? and reason=?", ...).Scan(&result)\<close>: the error of
  \<^verbatim>\<open>Scan\<close> and the \<^verbatim>\<open>sql.NullString\<close> it filled (\<open>None\<close>: not \<^verbatim>\<open>Valid\<close>).
\<close>

definition query_result ::
  "'b world \<Rightarrow> string \<Rightarrow> string \<Rightarrow> string \<Rightarrow> string \<Rightarrow> string
     \<Rightarrow> (panic + error option \<times> string option) \<times> 'b world" where
  "query_result w tt g b bt rs =
     (case next_fault (w\<lparr>trace := trace w @ [ESelect tt g b bt rs]\<rparr>) of
        (Crash p, w') \<Rightarrow> (Inl p, w')
      | (Fail e, w') \<Rightarrow> (Inr (Some e, None), w')
      | (Succeed, w') \<Rightarrow>
          (case filter (\<lambda>r. trans_type r = tt \<and> gid r = g \<and> branch_id r = b
                              \<and> branch_type r = bt \<and> reason r = rs) (tx_view w') of
             [] \<Rightarrow> (Inr (Some ErrNoRows, None), w')
           | r # _ \<Rightarrow> (Inr (None, result r), w')))"

subsection \<open>insertBarrier\<close>

definition insertBarrier ::
  "'b world \<Rightarrow> string \<Rightarrow> string \<Rightarrow> string \<Rightarrow> string \<Rightarrow> string
     \<Rightarrow> (panic + int \<times> error option) \<times> 'b world" where
  "insertBarrier w transType gid' branchID branchType reason' =
     (if branchType = '''' then (Inr (0, None), w)
      else
        (case exec_insert w \<lparr>trans_type = transType, gid = gid', branch_id = branchID,
                              branch_type = branchType, reason = reason', result = None\<rparr> of
           (Inl x, w') \<Rightarrow> (Inl x, w')
         | (Inr (Inl err), w') \<Rightarrow> (Inr (0, Some err), w')
         | (Inr (Inr res), w') \<Rightarrow> (Inr (RowsAffected res), w')))"

subsection \<open>ThroughBarrierCall\<close>

text \<open>
  The two functions of other packages the code calls on values: \<^verbatim>\<open>common.MustMarshalString\<close>
  returns a string only, so it can fail only by panicking; \<^verbatim>\<open>json.Unmarshal\<close> stores the
  decoded value through the pointer it is given and returns its error, or panics before it
  has stored anything.
\<close>

record 'r lib =
  MustMarshalString :: "'r iface \<Rightarrow> panic + string"
  json_Unmarshal :: "string \<Rightarrow> panic + error + 'r iface"

text \<open>\<^verbatim>\<open>BusiFunc\<close>: it gets \<^verbatim>\<open>*sql.DB\<close>, and what it writes through it is in the database.\<close>

type_synonym ('r, 'b) BusiFunc = "'b DB \<Rightarrow> 'r call_result \<times> 'b DB"

text \<open>\<^verbatim>\<open>map[string]string{"cancel": "try", "compensate": "action"}[branchType]\<close>: a missing
  key reads as the empty string.\<close>

definition originType :: "string \<Rightarrow> string" where
  "originType branchType =
     (case [''cancel'' \<mapsto> ''try'', ''compensate'' \<mapsto> ''action''] branchType of
        None \<Rightarrow> '''' | Some t \<Rightarrow> t)"

text \<open>
  How lines 98 to 135 end: the body returns with the named results \<^verbatim>\<open>res\<close> and \<^verbatim>\<open>rerr\<close>
  set, or a step panics, and the named results are what they were at that step.
\<close>

datatype 'r body_result =
  Done (res_of: "'r iface") (rerr_of: "error option")
  | Panicked (raised: panic) (res_of: "'r iface") (rerr_of: "error option")

text \<open>
  Lines 98 to 135: the body that runs between opening the transaction and the deferred
  function. Before line 104 \<^verbatim>\<open>rerr\<close> is the nil that \<^verbatim>\<open>BeginTx\<close> returned; \<^verbatim>\<open>res\<close> is nil
  until a branch sets it.
\<close>

definition ThroughBarrierCall_body ::
  "'r lib \<Rightarrow> 'b world \<Rightarrow> TransInfo \<Rightarrow> ('r, 'b) BusiFunc \<Rightarrow> 'r body_result \<times> 'b world" where
  "ThroughBarrierCall_body l w ti busiCall =
     (case insertBarrier w (TransType ti) (Gid ti) (BranchID ti)
             (originType (BranchType ti)) (BranchType ti) of
        (Inl x, w1) \<Rightarrow> (Panicked x GoNil None, w1)
      | (Inr (originAffected, _), w1) \<Rightarrow>
     (case insertBarrier w1 (TransType ti) (Gid ti) (BranchID ti)
             (BranchType ti) (BranchType ti) of
        (Inl x, w2) \<Rightarrow> (Panicked x GoNil None, w2)
      | (Inr (currentAffected, rerr), w2) \<Rightarrow>
     if (BranchType ti = ''cancel'' \<or> BranchType ti = ''compensate'') \<and> originAffected > 0
     then (Done (MS [(''dtm_result'', ''SUCCESS'')]) rerr, w2)
     else if currentAffected = 0 then
       (case query_result w2 (TransType ti) (Gid ti) (BranchID ti)
               (BranchType ti) (BranchType ti) of
          (Inl x, w3) \<Rightarrow> (Panicked x GoNil rerr, w3)
        | (Inr (err, result'), w3) \<Rightarrow>
            if err = Some ErrNoRows then (Done (MS [(''dtm_result'', ''FAILURE'')]) rerr, w3)
            else if err \<noteq> None then (Done GoNil err, w3)
            else
              (case result' of
                 Some s \<Rightarrow>
                   (case json_Unmarshal l s of
                      Inl x \<Rightarrow> (Panicked x GoNil rerr, w3)
                    | Inr (Inl e) \<Rightarrow> (Done (ErrorVal e) rerr, w3)
                    | Inr (Inr decoded) \<Rightarrow> (Done GoNil rerr, w3))
               | None \<Rightarrow> (Done (MS [(''dtm_result'', ''SUCCESS'')]) rerr, w3)))
     else
       (case busiCall (db w2) of
          (Panics x, db') \<Rightarrow> (Panicked x GoNil rerr, w2\<lparr>db := db', trace := trace w2 @ [ECall]\<rparr>)
        | (Return res rerr', db') \<Rightarrow>
            (let w3 = w2\<lparr>db := db', trace := trace w2 @ [ECall]\<rparr> in
             if rerr' = None then
               (case MustMarshalString l res of
                  Inl x \<Rightarrow> (Panicked x res None, w3)
                | Inr sval \<Rightarrow>
                    (case exec_update w3 sval (TransType ti) (Gid ti) (BranchID ti)
                            (BranchType ti) of
                       (Inl x, w4) \<Rightarrow> (Panicked x res None, w4)
                     | (Inr rerr'', w4) \<Rightarrow> (Done res rerr'', w4)))
             else (Done res rerr', w3)))))"

text \<open>
  \<^verbatim>\<open>recover()\<close> in the deferred function: the value of the panic under way, nil when the
  body returned.
\<close>

fun recover :: "'r body_result \<Rightarrow> panic" where
  "recover (Done res rerr) = PanicNil"
| "recover (Panicked x res rerr) = x"

text \<open>
  Lines 87 to 97, the deferred function: when \<^verbatim>\<open>recover()\<close> is not nil it rolls back and
  panics again with the same value; otherwise it rolls back or commits by \<^verbatim>\<open>rerr\<close>, and
  the call returns the named results.
\<close>

definition ThroughBarrierCall_deferred ::
  "'r body_result \<times> 'b world \<Rightarrow> 'r call_result \<times> 'b world" where
  "ThroughBarrierCall_deferred bw =
     (case bw of (b, w) \<Rightarrow>
        (let x = recover b in
         if x \<noteq> PanicNil then (Panics x, Rollback w)
         else if rerr_of b \<noteq> None then (Return (res_of b) (rerr_of b), Rollback w)
         else (Return (res_of b) (rerr_of b), Commit w)))"

text \<open>
  Lines 82 to 86 and the rest: a panic of \<^verbatim>\<open>BeginTx\<close> leaves the function before the
  deferred function is set up, and so does its error.
\<close>

definition ThroughBarrierCall ::
  "'r lib \<Rightarrow> 'b world \<Rightarrow> TransInfo \<Rightarrow> ('r, 'b) BusiFunc \<Rightarrow> 'r call_result \<times> 'b world" where
  "ThroughBarrierCall l w transInfo busiCall =
     (case BeginTx w of
        (Inl x, w0) \<Rightarrow> (Panics x, w0)
      | (Inr (Some rerr), w0) \<Rightarrow> (Return GoNil (Some rerr), w0)
      | (Inr None, w0) \<Rightarrow>
          ThroughBarrierCall_deferred (ThroughBarrierCall_body l w0 transInfo busiCall))"

text \<open>How many times the business callback has run.\<close>

definition invocations :: "'b world \<Rightarrow> nat" where
  "invocations w = length (filter (\<lambda>e. e = ECall) (trace w))"

subsection \<open>Concrete inputs\<close>

text \<open>A business value is one with a JSON text, or a Go channel, which \<^verbatim>\<open>encoding/json\<close>
  cannot serialise.\<close>

datatype payload = Json string | Chan

definition lib0 :: "payload lib" where
  "lib0 =
     \<lparr>MustMarshalString =
        (\<lambda>v. case v of
           Val Chan \<Rightarrow> Inl (Panic ''json: unsupported type: chan int'')
         | Val (Json s) \<Rightarrow> Inr s
         | GoNil \<Rightarrow> Inr ''null''
         | MS kvs \<Rightarrow> Inr (concat (map (\<lambda>(k, v). k @ '':'' @ v) kvs))
         | ErrorVal e \<Rightarrow> Inr ''{}''),
      json_Unmarshal =
        (\<lambda>s. if s = '''' then Inr (Inl (Err ''unexpected end of JSON input''))
             else Inr (Inr (Val (Json s))))\<rparr>"

text \<open>The same library, but for a \<^verbatim>\<open>MustMarshalString\<close> that panics with nil.\<close>

definition lib_nil :: "payload lib" where
  "lib_nil = lib0\<lparr>MustMarshalString := (\<lambda>v. Inl PanicNil)\<rparr>"

text \<open>Callbacks over a database whose business data is a counter of the writes made.\<close>

definition busi_amount :: "(payload, nat) BusiFunc" where
  "busi_amount d = (Return (Val (Json ''{amount:10}'')) None, d\<lparr>busi := busi d + 1\<rparr>)"

definition busi_fail :: "(payload, nat) BusiFunc" where
  "busi_fail d = (Return GoNil (Some (Err ''insufficient funds'')), d\<lparr>busi := busi d + 1\<rparr>)"

definition busi_chan :: "(payload, nat) BusiFunc" where
  "busi_chan d = (Return (Val Chan) None, d\<lparr>busi := busi d + 1\<rparr>)"

definition busi_panic :: "(payload, nat) BusiFunc" where
  "busi_panic d = (Panics (Panic ''index out of range''), d\<lparr>busi := busi d + 1\<rparr>)"

text \<open>A callback that ends in \<^verbatim>\<open>panic(nil)\<close>.\<close>

definition busi_nilpanic :: "(payload, nat) BusiFunc" where
  "busi_nilpanic d = (Panics PanicNil, d\<lparr>busi := busi d + 1\<rparr>)"

definition ti_try :: TransInfo where
  "ti_try = \<lparr>TransType = ''tcc'', Gid = ''g1'', BranchID = ''b1'', BranchType = ''try''\<rparr>"

definition ti_cancel :: TransInfo where
  "ti_cancel = \<lparr>TransType = ''tcc'', Gid = ''g1'', BranchID = ''b1'', BranchType = ''cancel''\<rparr>"

definition ti_confirm :: TransInfo where
  "ti_confirm = \<lparr>TransType = ''tcc'', Gid = ''g1'', BranchID = ''b1'', BranchType = ''confirm''\<rparr>"

definition slot :: "string \<Rightarrow> string \<Rightarrow> string option \<Rightarrow> barrier_row" where
  "slot bt rs res =
     \<lparr>trans_type = ''tcc'', gid = ''g1'', branch_id = ''b1'', branch_type = bt,
      reason = rs, result = res\<rparr>"

text \<open>
  A callback that returns a channel after it has written, through its database handle, a
  row on the try slot of the branch into the barrier table.
\<close>

definition busi_meddle :: "(payload, nat) BusiFunc" where
  "busi_meddle d =
     (Return (Val Chan) None, d\<lparr>barrier := barrier d @ [slot ''try'' ''cancel'' None]\<rparr>)"

definition world_of :: "barrier_row list \<Rightarrow> outcome list \<Rightarrow> nat world" where
  "world_of rows fs = \<lparr>db = \<lparr>barrier = rows, busi = 0\<rparr>, pending = [], faults = fs, trace = []\<rparr>"

text \<open>No branch has run; the try has run and stored its result; a cancel has run before any
  try (null compensation), and left both slots under reason cancel.\<close>

definition w_empty :: "nat world" where
  "w_empty = world_of [] []"

definition w_done :: "nat world" where
  "w_done = world_of [slot ''try'' ''try'' (Some ''{amount:10}'')] []"

definition w_poisoned :: "nat world" where
  "w_poisoned = world_of [slot ''try'' ''cancel'' None, slot ''cancel'' ''cancel'' None] []"

text \<open>The same empty database, with \<^verbatim>\<open>BeginTx\<close> failing, and with the first statement after
  \<^verbatim>\<open>BeginTx\<close> failing.\<close>

definition w_beginfail :: "nat world" where
  "w_beginfail = world_of [] [Fail (Err ''connection refused'')]"

definition w_poisonfail :: "nat world" where
  "w_poisonfail = world_of [] [Succeed, Fail (Err ''lock wait timeout'')]"

text \<open>
  The empty database again: with \<^verbatim>\<open>BeginTx\<close> panicking; with the first statement after
  \<^verbatim>\<open>BeginTx\<close> panicking; and with the third store operation failing, which is the
  \<^verbatim>\<open>BeginTx\<close> of a second call when the first one is a try that makes two.
\<close>

definition w_begincrash :: "nat world" where
  "w_begincrash = world_of [] [Crash (Panic ''driver: bad connection'')]"

definition w_insertcrash :: "nat world" where
  "w_insertcrash = world_of [] [Succeed, Crash (Panic ''driver: bad connection'')]"

definition w_retryfail :: "nat world" where
  "w_retryfail = world_of [] [Succeed, Succeed, Fail (Err ''connection refused'')]"

text \<open>A request that names the four parameters, and one without \<^verbatim>\<open>gid\<close>.\<close>

definition req_ok :: gin_Context where
  "req_ok = [''trans_type'' \<mapsto> ''tcc'', ''gid'' \<mapsto> ''g1'', ''branch_id'' \<mapsto> ''b1'',
             ''branch_type'' \<mapsto> ''try'']"

definition req_no_gid :: gin_Context where
  "req_no_gid = [''trans_type'' \<mapsto> ''tcc'', ''branch_id'' \<mapsto> ''b1'', ''branch_type'' \<mapsto> ''try'']"

subsection \<open>First arrivals, read off the table\<close>

text \<open>
  The slot of role \<open>bt\<close> of the branch of \<open>ti\<close> is taken in the table: a row has its key.
\<close>

definition claimed :: "barrier_row list \<Rightarrow> TransInfo \<Rightarrow> string \<Rightarrow> bool" where
  "claimed rows ti bt =
     list_ex (\<lambda>r. Gid ti = gid r \<and> BranchID ti = branch_id r \<and> bt = branch_type r) rows"

text \<open>
  When no store operation fails, these rows make a call reach line 129: its own slot is
  free (the own claim affects one row), and the slot of its origin type, when it has one,
  is taken (the first claim affects none, so the call is no null compensation).
\<close>

definition first_arrival :: "barrier_row list \<Rightarrow> TransInfo \<Rightarrow> bool" where
  "first_arrival rows ti \<longleftrightarrow>
     BranchType ti \<noteq> '''' \<and> \<not> claimed rows ti (BranchType ti)
     \<and> (originType (BranchType ti) = '''' \<or> claimed rows ti (originType (BranchType ti)))"

text \<open>The row a call claims for its own slot.\<close>

definition own_row :: "TransInfo \<Rightarrow> barrier_row" where
  "own_row ti =
     \<lparr>trans_type = TransType ti, gid = Gid ti, branch_id = BranchID ti,
      branch_type = BranchType ti, reason = BranchType ti, result = None\<rparr>"

section \<open>What each store operation leaves alone\<close>

text \<open>
  No store operation touches the committed database or runs the callback; each adds its
  own event to the trace and nothing else, whether it returns or panics.
\<close>

lemma next_fault_frame:
  "next_fault w = (f, w') \<Longrightarrow> trace w' = trace w \<and> db w' = db w \<and> pending w' = pending w"
  by (auto simp: next_fault_def split: list.splits)

lemma exec_insert_frame:
  assumes "exec_insert w r = (x, w')"
  shows "trace w' = trace w @ [EInsert r] \<and> db w' = db w"
  using assms
  by (auto simp: exec_insert_def split: prod.splits outcome.splits if_splits
           dest!: next_fault_frame)

lemma insertBarrier_frame:
  assumes "insertBarrier w tt g b bt rs = (x, w')"
  shows "db w' = db w \<and> invocations w' = invocations w
         \<and> (\<exists>evs. trace w' = trace w @ evs \<and> EBegin \<notin> set evs \<and> ECommit \<notin> set evs
                  \<and> ERollback \<notin> set evs \<and> ECall \<notin> set evs)"
  using assms
  by (auto simp: insertBarrier_def invocations_def split: if_splits prod.splits sum.splits
           dest!: exec_insert_frame)

text \<open>A claim that returns affected one row, which it added to the pending writes, or none.\<close>

lemma insertBarrier_pending:
  assumes "insertBarrier w tt g b bt rs = (Inr (n, e), w')"
  shows "(n = 0 \<or> n = 1)
         \<and> pending w' =
             (if n = 0 then pending w
              else pending w @ [WInsert \<lparr>trans_type = tt, gid = g, branch_id = b,
                                          branch_type = bt, reason = rs, result = None\<rparr>])"
  using assms
  by (auto simp: insertBarrier_def exec_insert_def RowsAffected_def
           split: if_splits prod.splits sum.splits outcome.splits
           dest!: next_fault_frame)

lemma query_result_frame:
  assumes "query_result w tt g b bt rs = (x, w')"
  shows "db w' = db w \<and> pending w' = pending w \<and> invocations w' = invocations w
         \<and> trace w' = trace w @ [ESelect tt g b bt rs]"
  using assms
  by (auto simp: query_result_def invocations_def split: prod.splits outcome.splits list.splits
           dest!: next_fault_frame)

lemma exec_update_frame:
  assumes "exec_update w sval tt g b bt = (x, w')"
  shows "db w' = db w \<and> invocations w' = invocations w
         \<and> trace w' = trace w @ [EUpdate sval tt g b bt]
         \<and> (x = Inr None \<longrightarrow> pending w' = pending w @ [WUpdate sval tt g b bt])"
  using assms
  by (auto simp: exec_update_def invocations_def split: prod.splits outcome.splits
           dest!: next_fault_frame)

lemma BeginTx_frame:
  assumes "BeginTx w = (x, w')"
  shows "db w' = db w \<and> invocations w' = invocations w
     \<and> trace w' = (if x = Inr None then trace w @ [EBegin] else trace w)
     \<and> (x = Inr None \<longrightarrow> pending w' = [])"
  using assms
  by (auto simp: BeginTx_def invocations_def split: prod.splits outcome.splits
           dest!: next_fault_frame)

lemma invocations_Commit [simp]: "invocations (Commit w) = invocations w"
  by (simp add: Commit_def invocations_def)

lemma invocations_Rollback [simp]: "invocations (Rollback w) = invocations w"
  by (simp add: Rollback_def invocations_def)

lemma db_Rollback [simp]: "db (Rollback w) = db w"
  by (simp add: Rollback_def)

lemma busi_db_Commit [simp]: "busi (db (Commit w)) = busi (db w)"
  by (simp add: Commit_def)

lemma invocations_call [simp]:
  "invocations (w\<lparr>db := d, trace := trace w @ [ECall]\<rparr>) = invocations w + 1"
  by (simp add: invocations_def)

lemma originType_forward:
  "bt \<noteq> ''cancel'' \<Longrightarrow> bt \<noteq> ''compensate'' \<Longrightarrow> originType bt = ''''"
  by (simp add: originType_def)

text \<open>What the deferred function does, by how the body ended.\<close>

lemma deferred_Done [simp]:
  "ThroughBarrierCall_deferred (Done res rerr, w)
     = (Return res rerr, if rerr = None then Commit w else Rollback w)"
  by (simp add: ThroughBarrierCall_deferred_def)

lemma deferred_Panicked [simp]:
  "ThroughBarrierCall_deferred (Panicked x res rerr, w)
     = (if x \<noteq> PanicNil then (Panics x, Rollback w)
        else (Return res rerr, if rerr = None then Commit w else Rollback w))"
  by (simp add: ThroughBarrierCall_deferred_def)

text \<open>The world in which the callback is called: the database is the one the call began with.\<close>

lemma call_world:
  assumes "BeginTx w = (Inr None, w0)"
    and "insertBarrier w0 tt g b ot bt = (r1, w1)"
    and "insertBarrier w1 tt g b bt bt = (r2, w2)"
  shows "db w2 = db w \<and> invocations w2 = invocations w"
  using BeginTx_frame[OF assms(1)] insertBarrier_frame[OF assms(2)] insertBarrier_frame[OF assms(3)]
  by simp

text \<open>
  Lines 129 to 135 in full, for a call that is no null compensation and whose own claim
  affected a row.
\<close>

lemma call_branch:
  assumes "BeginTx w = (Inr None, w0)"
    and "insertBarrier w0 (TransType ti) (Gid ti) (BranchID ti)
           (originType (BranchType ti)) (BranchType ti) = (Inr (originAffected, oerr), w1)"
    and "\<not> ((BranchType ti = ''cancel'' \<or> BranchType ti = ''compensate'') \<and> originAffected > 0)"
    and "insertBarrier w1 (TransType ti) (Gid ti) (BranchID ti) (BranchType ti) (BranchType ti)
           = (Inr (currentAffected, rerr), w2)"
    and "currentAffected \<noteq> 0"
  shows "ThroughBarrierCall l w ti busiCall =
     ThroughBarrierCall_deferred
       (case busiCall (db w) of
          (Panics x, db') \<Rightarrow> (Panicked x GoNil rerr, w2\<lparr>db := db', trace := trace w2 @ [ECall]\<rparr>)
        | (Return res rerr', db') \<Rightarrow>
            if rerr' = None then
              (case MustMarshalString l res of
                 Inl x \<Rightarrow> (Panicked x res None, w2\<lparr>db := db', trace := trace w2 @ [ECall]\<rparr>)
               | Inr sval \<Rightarrow>
                   (case exec_update (w2\<lparr>db := db', trace := trace w2 @ [ECall]\<rparr>) sval
                           (TransType ti) (Gid ti) (BranchID ti) (BranchType ti) of
                      (Inl x, w4) \<Rightarrow> (Panicked x res None, w4)
                    | (Inr rerr'', w4) \<Rightarrow> (Done res rerr'', w4)))
            else (Done res rerr', w2\<lparr>db := db', trace := trace w2 @ [ECall]\<rparr>))"
proof -
  have "db w2 = db w"
    using call_world[OF assms(1,2,4)] by simp
  then show ?thesis
    using assms
    by (auto simp add: ThroughBarrierCall_def ThroughBarrierCall_body_def Let_def
             split: prod.splits call_result.splits)
qed

text \<open>
  The writes pending when the callback is called: the claim of the own slot, and nothing
  else.
\<close>

lemma call_pending:
  assumes "BeginTx w = (Inr None, w0)"
    and "insertBarrier w0 (TransType ti) (Gid ti) (BranchID ti)
           (originType (BranchType ti)) (BranchType ti) = (Inr (originAffected, oerr), w1)"
    and "\<not> ((BranchType ti = ''cancel'' \<or> BranchType ti = ''compensate'') \<and> originAffected > 0)"
    and "insertBarrier w1 (TransType ti) (Gid ti) (BranchID ti) (BranchType ti) (BranchType ti)
           = (Inr (currentAffected, rerr), w2)"
    and "currentAffected \<noteq> 0"
  shows "pending w2 = [WInsert (own_row ti)]"
proof -
  have p0: "pending w0 = []"
    using BeginTx_frame[OF assms(1)] by simp
  have "originAffected = 0"
  proof (cases "BranchType ti = ''cancel'' \<or> BranchType ti = ''compensate''")
    case True
    with assms(3) insertBarrier_pending[OF assms(2)] show ?thesis by auto
  next
    case False
    then have "originType (BranchType ti) = ''''" by (simp add: originType_def)
    with assms(2) show ?thesis by (simp add: insertBarrier_def)
  qed
  with insertBarrier_pending[OF assms(2)] p0 have p1: "pending w1 = []" by simp
  from insertBarrier_pending[OF assms(4)] assms(5) p1 show ?thesis
    by (simp add: own_row_def)
qed

text \<open>The definitions a run on a concrete world unfolds.\<close>

lemmas eval_defs =
  BeginTx_def next_fault_def insertBarrier_def exec_insert_def exec_update_def query_result_def
  tx_view_def same_key_def RowsAffected_def originType_def Commit_def Rollback_def
  invocations_def world_of_def slot_def

lemmas run_defs =
  ThroughBarrierCall_def ThroughBarrierCall_body_def ThroughBarrierCall_deferred_def eval_defs
  lib0_def lib_nil_def busi_amount_def busi_fail_def busi_chan_def busi_panic_def
  busi_nilpanic_def busi_meddle_def ti_try_def ti_cancel_def ti_confirm_def
  w_empty_def w_done_def w_poisoned_def w_beginfail_def w_poisonfail_def
  w_begincrash_def w_insertcrash_def w_retryfail_def

text \<open>
  What the call of lines 129 to 135 does to the world, however the callback ends: it runs
  once, and the database it leaves is kept but for the writes of the barrier.
\<close>

lemma call_effects:
  assumes "BeginTx w = (Inr None, w0)"
    and "insertBarrier w0 (TransType ti) (Gid ti) (BranchID ti)
           (originType (BranchType ti)) (BranchType ti) = (Inr (originAffected, oerr), w1)"
    and "\<not> ((BranchType ti = ''cancel'' \<or> BranchType ti = ''compensate'') \<and> originAffected > 0)"
    and "insertBarrier w1 (TransType ti) (Gid ti) (BranchID ti) (BranchType ti) (BranchType ti)
           = (Inr (currentAffected, rerr), w2)"
    and "currentAffected \<noteq> 0"
    and "busiCall (db w) = (out, d')"
  shows "invocations (snd (ThroughBarrierCall l w ti busiCall)) = invocations w + 1
       \<and> busi (db (snd (ThroughBarrierCall l w ti busiCall))) = busi d'
       \<and> ((\<forall>res. fst (ThroughBarrierCall l w ti busiCall) \<noteq> Return res None)
            \<longrightarrow> db (snd (ThroughBarrierCall l w ti busiCall)) = d')"
proof -
  note run = call_branch[OF assms(1-5), of l busiCall]
  note pre = call_world[OF assms(1,2,4)]
  show ?thesis
  proof (cases out)
    case (Panics x)
    with run pre assms(6) show ?thesis by simp
  next
    case (Return res rerr')
    show ?thesis
    proof (cases rerr')
      case (Some e)
      with Return run pre assms(6) show ?thesis by simp
    next
      case None
      show ?thesis
      proof (cases "MustMarshalString l res")
        case (Inl x)
        with None Return run pre assms(6) show ?thesis by simp
      next
        case (Inr sval)
        obtain ue w4 where upd: "exec_update (w2\<lparr>db := d', trace := trace w2 @ [ECall]\<rparr>) sval
             (TransType ti) (Gid ti) (BranchID ti) (BranchType ti) = (ue, w4)"
          by (cases "exec_update (w2\<lparr>db := d', trace := trace w2 @ [ECall]\<rparr>) sval
             (TransType ti) (Gid ti) (BranchID ti) (BranchType ti)") blast
        from exec_update_frame[OF upd] pre
        have "db w4 = d'" and "invocations w4 = invocations w + 1" by simp_all
        with Inr None Return run upd assms(6) show ?thesis
          by (cases ue) simp_all
      qed
    qed
  qed
qed

text \<open>
  The same call when the callback returns no error, its result is serialised and the
  result write succeeds: the transaction is committed, and the database is the one the
  callback left with the claim of the own slot and the result write applied to its barrier
  table.
\<close>

lemma call_commits:
  assumes "BeginTx w = (Inr None, w0)"
    and "insertBarrier w0 (TransType ti) (Gid ti) (BranchID ti)
           (originType (BranchType ti)) (BranchType ti) = (Inr (originAffected, oerr), w1)"
    and "\<not> ((BranchType ti = ''cancel'' \<or> BranchType ti = ''compensate'') \<and> originAffected > 0)"
    and "insertBarrier w1 (TransType ti) (Gid ti) (BranchID ti) (BranchType ti) (BranchType ti)
           = (Inr (currentAffected, rerr), w2)"
    and "currentAffected \<noteq> 0"
    and "busiCall (db w) = (Return res None, d')"
    and "MustMarshalString l res = Inr sval"
    and "exec_update (w2\<lparr>db := d', trace := trace w2 @ [ECall]\<rparr>) sval
           (TransType ti) (Gid ti) (BranchID ti) (BranchType ti) = (Inr None, w3)"
  shows "ThroughBarrierCall l w ti busiCall = (Return res None, Commit w3)
       \<and> db (snd (ThroughBarrierCall l w ti busiCall))
           = d'\<lparr>barrier := foldl apply_write (barrier d')
                   [WInsert (own_row ti),
                    WUpdate sval (TransType ti) (Gid ti) (BranchID ti) (BranchType ti)]\<rparr>"
proof -
  have run: "ThroughBarrierCall l w ti busiCall = (Return res None, Commit w3)"
    using call_branch[OF assms(1-5), of l busiCall] assms(6-8) by simp
  have "pending w3 = pending w2 @ [WUpdate sval (TransType ti) (Gid ti) (BranchID ti) (BranchType ti)]"
    and "db w3 = d'"
    using exec_update_frame[OF assms(8)] by simp_all
  with call_pending[OF assms(1-5)]
  have "db (Commit w3)
          = d'\<lparr>barrier := foldl apply_write (barrier d')
                  [WInsert (own_row ti),
                   WUpdate sval (TransType ti) (Gid ti) (BranchID ti) (BranchType ti)]\<rparr>"
    by (simp add: Commit_def tx_view_def)
  with run show ?thesis by simp
qed

section \<open>TransInfoFromReq\<close>

text \<open>
  Claim C8. Building the branch context from a request fails when any of the four
  parameters \<^verbatim>\<open>trans_type\<close>, \<^verbatim>\<open>gid\<close>, \<^verbatim>\<open>branch_id\<close>, \<^verbatim>\<open>branch_type\<close> is empty, and
  otherwise returns the context with the four values. The failure is the panic of line 38,
  carrying the error \<^verbatim>\<open>invlid trans info: ...\<close>; the function takes the request only, so
  it reaches no storage either way.
\<close>

theorem TransInfoFromReq_checks:
  "(Query c ''trans_type'' \<noteq> '''' \<and> Query c ''gid'' \<noteq> '''' \<and> Query c ''branch_id'' \<noteq> ''''
      \<and> Query c ''branch_type'' \<noteq> ''''
    \<longrightarrow> TransInfoFromReq c
          = Inr \<lparr>TransType = Query c ''trans_type'', Gid = Query c ''gid'',
                 BranchID = Query c ''branch_id'', BranchType = Query c ''branch_type''\<rparr>)
   \<and> (Query c ''trans_type'' = '''' \<or> Query c ''gid'' = '''' \<or> Query c ''branch_id'' = ''''
      \<or> Query c ''branch_type'' = ''''
    \<longrightarrow> TransInfoFromReq c
          = Inl (Panic (''invlid trans info: transInfo: '' @ Query c ''trans_type'' @ '' ''
                        @ Query c ''gid'' @ '' '' @ Query c ''branch_id'' @ '' ''
                        @ Query c ''branch_type'')))"
  by (simp add: TransInfoFromReq_def TransInfo_String_def Let_def)

theorem TransInfoFromReq_checks_witness:
  "TransInfoFromReq req_ok = Inr ti_try
   \<and> Query req_no_gid ''gid'' = ''''
   \<and> TransInfoFromReq req_no_gid = Inl (Panic ''invlid trans info: transInfo: tcc  b1 try'')"
proof -
  have ok: "Query req_ok ''trans_type'' = ''tcc'' \<and> Query req_ok ''gid'' = ''g1''
            \<and> Query req_ok ''branch_id'' = ''b1'' \<and> Query req_ok ''branch_type'' = ''try''"
    by (simp add: Query_def req_ok_def)
  have c1: "TransInfoFromReq req_ok = Inr ti_try"
    using TransInfoFromReq_checks[of req_ok] ok by (simp add: ti_try_def)
  have missing: "Query req_no_gid ''trans_type'' = ''tcc'' \<and> Query req_no_gid ''gid'' = ''''
            \<and> Query req_no_gid ''branch_id'' = ''b1'' \<and> Query req_no_gid ''branch_type'' = ''try''"
    by (simp add: Query_def req_no_gid_def)
  have c2: "TransInfoFromReq req_no_gid = Inl (Panic ''invlid trans info: transInfo: tcc  b1 try'')"
    using TransInfoFromReq_checks[of req_no_gid] missing by simp
  from c1 missing c2 show ?thesis by blast
qed

section \<open>insertBarrier\<close>

text \<open>
  Claim C9. A claim with an empty role slot (\<^verbatim>\<open>branchType == ""\<close>) returns the count 0 and
  no error, and leaves the world as it was: no statement is sent, no scheduled outcome is
  used up and nothing is added to the trace.
\<close>

theorem noop_claim: "insertBarrier w transType g branchID '''' rs = (Inr (0, None), w)"
  by (simp add: insertBarrier_def)

text \<open>
  Claim C10. For a branch type that is neither \<^verbatim>\<open>cancel\<close> nor \<^verbatim>\<open>compensate\<close> (so
  also for \<^verbatim>\<open>confirm\<close> and for any unknown string) the origin type read from the map of
  line 99 is the empty string, and the first claim of \<^verbatim>\<open>ThroughBarrierCall\<close> returns 0
  with no error and leaves the world as it was.
\<close>

theorem origin_slot_empty:
  assumes "BranchType ti \<noteq> ''cancel''" and "BranchType ti \<noteq> ''compensate''"
  shows "originType (BranchType ti) = ''''
         \<and> insertBarrier w (TransType ti) (Gid ti) (BranchID ti)
              (originType (BranchType ti)) (BranchType ti) = (Inr (0, None), w)"
  using assms by (simp add: originType_def insertBarrier_def)

theorem origin_slot_empty_witness:
  "BranchType ti_confirm \<noteq> ''cancel'' \<and> BranchType ti_confirm \<noteq> ''compensate''
   \<and> originType (BranchType ti_confirm) = ''''
   \<and> insertBarrier w_empty (TransType ti_confirm) (Gid ti_confirm) (BranchID ti_confirm)
        (originType (BranchType ti_confirm)) (BranchType ti_confirm) = (Inr (0, None), w_empty)"
proof -
  have h1: "BranchType ti_confirm \<noteq> ''cancel''" and h2: "BranchType ti_confirm \<noteq> ''compensate''"
    by (simp_all add: ti_confirm_def)
  from origin_slot_empty[OF h1 h2, of w_empty] h1 h2 show ?thesis by blast
qed


section \<open>ThroughBarrierCall: the decisions\<close>

text \<open>
  Claim C2 (suspension). A call whose branch type is neither \<^verbatim>\<open>cancel\<close> nor
  \<^verbatim>\<open>compensate\<close>, whose own claim affects no row and whose lookup under its own reason
  finds no row, returns \<^verbatim>\<open>{"dtm_result": "FAILURE"}\<close> and does not run the callback. The
  error returned with it is the one of the own claim: none when the claim found the slot
  taken, and then the transaction is committed.
\<close>

theorem suspension_returns_failure:
  assumes "BranchType ti \<noteq> ''cancel''" and "BranchType ti \<noteq> ''compensate''"
    and "BeginTx w = (Inr None, w0)"
    and "insertBarrier w0 (TransType ti) (Gid ti) (BranchID ti) (BranchType ti) (BranchType ti)
           = (Inr (0, rerr), w1)"
    and "query_result w1 (TransType ti) (Gid ti) (BranchID ti) (BranchType ti) (BranchType ti)
           = (Inr (Some ErrNoRows, r), w2)"
  shows "ThroughBarrierCall l w ti busiCall
           = (Return (MS [(''dtm_result'', ''FAILURE'')]) rerr,
              if rerr = None then Commit w2 else Rollback w2)
         \<and> invocations (snd (ThroughBarrierCall l w ti busiCall)) = invocations w"
proof -
  have origin: "insertBarrier w0 (TransType ti) (Gid ti) (BranchID ti)
                  (originType (BranchType ti)) (BranchType ti) = (Inr (0, None), w0)"
    using assms(1,2) by (simp add: originType_forward insertBarrier_def)
  have run: "ThroughBarrierCall l w ti busiCall
           = (Return (MS [(''dtm_result'', ''FAILURE'')]) rerr,
              if rerr = None then Commit w2 else Rollback w2)"
    using assms origin by (simp add: ThroughBarrierCall_def ThroughBarrierCall_body_def)
  have "invocations w2 = invocations w"
    using BeginTx_frame[OF assms(3)] insertBarrier_frame[OF assms(4)] query_result_frame[OF assms(5)]
    by simp
  with run show ?thesis by simp
qed

text \<open>The try that comes after a null compensation: its slot is held under reason cancel.\<close>

theorem suspension_returns_failure_witness:
  "BranchType ti_try \<noteq> ''cancel'' \<and> BranchType ti_try \<noteq> ''compensate''
   \<and> fst (BeginTx w_poisoned) = Inr None
   \<and> fst (insertBarrier (snd (BeginTx w_poisoned)) ''tcc'' ''g1'' ''b1'' ''try'' ''try'') = Inr (0, None)
   \<and> fst (ThroughBarrierCall lib0 w_poisoned ti_try busi_amount)
       = Return (MS [(''dtm_result'', ''FAILURE'')]) None
   \<and> invocations (snd (ThroughBarrierCall lib0 w_poisoned ti_try busi_amount)) = 0"
proof -
  let ?w0 = "snd (BeginTx w_poisoned)"
  let ?w1 = "snd (insertBarrier ?w0 ''tcc'' ''g1'' ''b1'' ''try'' ''try'')"
  let ?w2 = "snd (query_result ?w1 ''tcc'' ''g1'' ''b1'' ''try'' ''try'')"
  have h1: "BranchType ti_try \<noteq> ''cancel''" and h2: "BranchType ti_try \<noteq> ''compensate''"
    by (simp_all add: ti_try_def)
  have h3: "BeginTx w_poisoned = (Inr None, ?w0)"
    by (simp add: eval_defs w_poisoned_def)
  have h4: "insertBarrier ?w0 (TransType ti_try) (Gid ti_try) (BranchID ti_try)
              (BranchType ti_try) (BranchType ti_try) = (Inr (0, None), ?w1)"
    by (simp add: eval_defs w_poisoned_def ti_try_def)
  have h5: "query_result ?w1 (TransType ti_try) (Gid ti_try) (BranchID ti_try)
              (BranchType ti_try) (BranchType ti_try) = (Inr (Some ErrNoRows, None), ?w2)"
    by (simp add: eval_defs w_poisoned_def ti_try_def)
  have h6: "invocations w_poisoned = 0"
    by (simp add: eval_defs w_poisoned_def)
  have e3: "fst (BeginTx w_poisoned) = Inr None"
    by (simp add: eval_defs w_poisoned_def)
  have e4: "fst (insertBarrier ?w0 ''tcc'' ''g1'' ''b1'' ''try'' ''try'') = Inr (0, None)"
    by (simp add: eval_defs w_poisoned_def)
  note run = suspension_returns_failure[OF h1 h2 h3 h4 h5, of lib0 busi_amount]
  have c1: "fst (ThroughBarrierCall lib0 w_poisoned ti_try busi_amount)
              = Return (MS [(''dtm_result'', ''FAILURE'')]) None"
    using run[THEN conjunct1] by simp
  have c2: "invocations (snd (ThroughBarrierCall lib0 w_poisoned ti_try busi_amount)) = 0"
    using run[THEN conjunct2] h6 by simp
  from h1 h2 e3 e4 c1 c2 show ?thesis by blast
qed

text \<open>
  What a replay returns, whatever the stored payload: line 122 assigns to \<^verbatim>\<open>res\<close> the error
  that \<^verbatim>\<open>json.Unmarshal\<close> returns, after \<^verbatim>\<open>json.Unmarshal\<close> has stored the decoded value
  in \<^verbatim>\<open>res\<close>. So \<^verbatim>\<open>res\<close> is nil when the payload decodes, and the decoding error
  otherwise; the callback is not run.
\<close>

lemma replay_result:
  assumes "BeginTx w = (Inr None, w0)"
    and "insertBarrier w0 (TransType ti) (Gid ti) (BranchID ti)
           (originType (BranchType ti)) (BranchType ti) = (Inr (originAffected, oerr), w1)"
    and "\<not> ((BranchType ti = ''cancel'' \<or> BranchType ti = ''compensate'') \<and> originAffected > 0)"
    and "insertBarrier w1 (TransType ti) (Gid ti) (BranchID ti) (BranchType ti) (BranchType ti)
           = (Inr (0, rerr), w2)"
    and "query_result w2 (TransType ti) (Gid ti) (BranchID ti) (BranchType ti) (BranchType ti)
           = (Inr (None, Some s), w3)"
    and "json_Unmarshal l s = Inr u"
  shows "fst (ThroughBarrierCall l w ti busiCall)
           = Return (case u of Inl e \<Rightarrow> ErrorVal e | Inr decoded \<Rightarrow> GoNil) rerr
         \<and> invocations (snd (ThroughBarrierCall l w ti busiCall)) = invocations w"
proof -
  have "invocations w3 = invocations w"
    using call_world[OF assms(1,2,4)] query_result_frame[OF assms(5)] by simp
  then show ?thesis
    using assms
    by (cases u) (auto simp add: ThroughBarrierCall_def ThroughBarrierCall_body_def)
qed

text \<open>
  Claim C1 (idempotent replay). The claim: a call whose own claim affects no row and whose
  row holds the result payload of an earlier successful call returns that result,
  deserialized, and does not run the callback. The code at such a call: the first try of
  branch (g1, b1) returns the value with JSON text \<^verbatim>\<open>{amount:10}\<close> and stores that text in
  its row; the payload decodes to the same value; the second try, on the world the first
  one left, returns nil. The callback is not run, as claimed, but the result is lost.
\<close>

theorem replay_returns_nil:
  "fst (ThroughBarrierCall lib0 w_empty ti_try busi_amount) = Return (Val (Json ''{amount:10}'')) None
   \<and> barrier (db (snd (ThroughBarrierCall lib0 w_empty ti_try busi_amount)))
       = [slot ''try'' ''try'' (Some ''{amount:10}'')]
   \<and> json_Unmarshal lib0 ''{amount:10}'' = Inr (Inr (Val (Json ''{amount:10}'')))
   \<and> fst (ThroughBarrierCall lib0 (snd (ThroughBarrierCall lib0 w_empty ti_try busi_amount))
            ti_try busi_amount) = Return GoNil None
   \<and> fst (ThroughBarrierCall lib0 w_done ti_try busi_amount) = Return GoNil None
   \<and> invocations (snd (ThroughBarrierCall lib0 w_done ti_try busi_amount)) = 0"
  by (simp add: run_defs)

text \<open>
  Claim C7 (store error at the first claim). The claim: when the first claim, on the slot
  of the origin type, fails with a store error, the error is returned, the transaction is
  rolled back and the callback is not run. The code drops that error (line 103 binds it to
  the blank identifier). Here a cancel arrives before any try and its first insert fails:
  the own claim then succeeds, the callback runs, no error is returned and the transaction
  is committed with the try slot left free, so the try that arrives later runs its callback
  too.
\<close>

theorem poison_claim_error_discarded:
  "fst (insertBarrier (snd (BeginTx w_poisonfail)) ''tcc'' ''g1'' ''b1'' ''try'' ''cancel'')
       = Inr (0, Some (Err ''lock wait timeout''))
   \<and> fst (ThroughBarrierCall lib0 w_poisonfail ti_cancel busi_amount)
       = Return (Val (Json ''{amount:10}'')) None
   \<and> trace (snd (ThroughBarrierCall lib0 w_poisonfail ti_cancel busi_amount))
       = [EBegin, EInsert (slot ''try'' ''cancel'' None), EInsert (slot ''cancel'' ''cancel'' None),
          ECall, EUpdate ''{amount:10}'' ''tcc'' ''g1'' ''b1'' ''cancel'', ECommit]
   \<and> barrier (db (snd (ThroughBarrierCall lib0 w_poisonfail ti_cancel busi_amount)))
       = [slot ''cancel'' ''cancel'' (Some ''{amount:10}'')]
   \<and> invocations (snd (ThroughBarrierCall lib0
         (snd (ThroughBarrierCall lib0 w_poisonfail ti_cancel busi_amount)) ti_try busi_amount)) = 2"
  by (simp add: run_defs)


section \<open>ThroughBarrierCall: the callback and the transaction\<close>

text \<open>
  Claim C4, as stated: on a first arrival the callback gets a handle to the transaction in
  which the barrier makes its claims, so that its writes commit or roll back with them.
  The code calls \<^verbatim>\<open>busiCall(db)\<close>: the callback gets the database handle, not \<^verbatim>\<open>tx\<close>. A try
  whose callback writes once and then returns an error: the barrier rolls its own claim
  back (no row is left), and the write of the callback stays.
\<close>

theorem callback_outside_transaction:
  "busi (db w_empty) = 0
   \<and> fst (ThroughBarrierCall lib0 w_empty ti_try busi_fail)
       = Return GoNil (Some (Err ''insufficient funds''))
   \<and> trace (snd (ThroughBarrierCall lib0 w_empty ti_try busi_fail))
       = [EBegin, EInsert (slot ''try'' ''try'' None), ECall, ERollback]
   \<and> barrier (db (snd (ThroughBarrierCall lib0 w_empty ti_try busi_fail))) = []
   \<and> busi (db (snd (ThroughBarrierCall lib0 w_empty ti_try busi_fail))) = 1"
  by (simp add: run_defs)

text \<open>
  Claim C4, amended. On a first arrival (the call is no null compensation and its own
  claim affects a row) the callback is run once, on the database handle the transaction
  was begun from: it is applied to the database as committed before the call, without the
  claims of the barrier. What it writes to the business data is in the database after the
  call whether the barrier commits or rolls back. The writes of the barrier are one unit:
  when the call does not return with a nil error, none of them is kept and the database
  is exactly what the callback left; when the callback returns no error, its result is
  serialised and the result write succeeds, the call returns that result and commits, and
  the database is what the callback left with the claim of the own slot and the result
  write both applied to the barrier table.
\<close>

theorem callback_gets_database_handle:
  assumes "BeginTx w = (Inr None, w0)"
    and "insertBarrier w0 (TransType ti) (Gid ti) (BranchID ti)
           (originType (BranchType ti)) (BranchType ti) = (Inr (originAffected, oerr), w1)"
    and "\<not> ((BranchType ti = ''cancel'' \<or> BranchType ti = ''compensate'') \<and> originAffected > 0)"
    and "insertBarrier w1 (TransType ti) (Gid ti) (BranchID ti) (BranchType ti) (BranchType ti)
           = (Inr (currentAffected, rerr), w2)"
    and "currentAffected \<noteq> 0"
    and "busiCall (db w) = (out, d')"
  shows "invocations (snd (ThroughBarrierCall l w ti busiCall)) = invocations w + 1
       \<and> busi (db (snd (ThroughBarrierCall l w ti busiCall))) = busi d'
       \<and> ((\<forall>res. fst (ThroughBarrierCall l w ti busiCall) \<noteq> Return res None)
            \<longrightarrow> db (snd (ThroughBarrierCall l w ti busiCall)) = d')
       \<and> (\<forall>res sval w3.
             out = Return res None \<and> MustMarshalString l res = Inr sval
             \<and> exec_update (w2\<lparr>db := d', trace := trace w2 @ [ECall]\<rparr>) sval
                 (TransType ti) (Gid ti) (BranchID ti) (BranchType ti) = (Inr None, w3)
             \<longrightarrow> ThroughBarrierCall l w ti busiCall = (Return res None, Commit w3)
                 \<and> db (snd (ThroughBarrierCall l w ti busiCall))
                     = d'\<lparr>barrier := foldl apply_write (barrier d')
                             [WInsert (own_row ti),
                              WUpdate sval (TransType ti) (Gid ti) (BranchID ti)
                                (BranchType ti)]\<rparr>)"
proof -
  note first = call_effects[where busiCall = busiCall and l = l, OF assms]
  have "\<forall>res sval w3.
          out = Return res None \<and> MustMarshalString l res = Inr sval
          \<and> exec_update (w2\<lparr>db := d', trace := trace w2 @ [ECall]\<rparr>) sval
              (TransType ti) (Gid ti) (BranchID ti) (BranchType ti) = (Inr None, w3)
          \<longrightarrow> ThroughBarrierCall l w ti busiCall = (Return res None, Commit w3)
              \<and> db (snd (ThroughBarrierCall l w ti busiCall))
                  = d'\<lparr>barrier := foldl apply_write (barrier d')
                          [WInsert (own_row ti),
                           WUpdate sval (TransType ti) (Gid ti) (BranchID ti)
                             (BranchType ti)]\<rparr>"
  proof (intro allI impI)
    fix res sval w3
    assume c: "out = Return res None \<and> MustMarshalString l res = Inr sval
          \<and> exec_update (w2\<lparr>db := d', trace := trace w2 @ [ECall]\<rparr>) sval
              (TransType ti) (Gid ti) (BranchID ti) (BranchType ti) = (Inr None, w3)"
    then have call: "busiCall (db w) = (Return res None, d')"
      using assms(6) by simp
    from c call_commits[where busiCall = busiCall and l = l, OF assms(1-5) call]
    show "ThroughBarrierCall l w ti busiCall = (Return res None, Commit w3)
              \<and> db (snd (ThroughBarrierCall l w ti busiCall))
                  = d'\<lparr>barrier := foldl apply_write (barrier d')
                          [WInsert (own_row ti),
                           WUpdate sval (TransType ti) (Gid ti) (BranchID ti)
                             (BranchType ti)]\<rparr>"
      by blast
  qed
  with first show ?thesis by blast
qed

text \<open>
  A try on the empty table with a callback that writes and returns an error, and the same
  try with a callback that writes and returns a result.
\<close>

theorem callback_gets_database_handle_witness:
  "fst (BeginTx w_empty) = Inr None
   \<and> fst (insertBarrier (snd (BeginTx w_empty)) ''tcc'' ''g1'' ''b1'' ''try'' ''try'') = Inr (1, None)
   \<and> busi_fail (db w_empty)
       = (Return GoNil (Some (Err ''insufficient funds'')), \<lparr>barrier = [], busi = 1\<rparr>)
   \<and> invocations (snd (ThroughBarrierCall lib0 w_empty ti_try busi_fail)) = invocations w_empty + 1
   \<and> busi (db (snd (ThroughBarrierCall lib0 w_empty ti_try busi_fail))) = 1
   \<and> db (snd (ThroughBarrierCall lib0 w_empty ti_try busi_fail)) = \<lparr>barrier = [], busi = 1\<rparr>
   \<and> busi_amount (db w_empty)
       = (Return (Val (Json ''{amount:10}'')) None, \<lparr>barrier = [], busi = 1\<rparr>)
   \<and> MustMarshalString lib0 (Val (Json ''{amount:10}'')) = Inr ''{amount:10}''
   \<and> fst (ThroughBarrierCall lib0 w_empty ti_try busi_amount)
       = Return (Val (Json ''{amount:10}'')) None
   \<and> db (snd (ThroughBarrierCall lib0 w_empty ti_try busi_amount))
       = \<lparr>barrier = [slot ''try'' ''try'' (Some ''{amount:10}'')], busi = 1\<rparr>"
proof -
  let ?wa = "snd (BeginTx w_empty)"
  let ?wb = "snd (insertBarrier ?wa ''tcc'' ''g1'' ''b1'' ''try'' ''try'')"
  let ?da = "\<lparr>barrier = [], busi = 1::nat\<rparr>"
  let ?wc = "snd (exec_update (?wb\<lparr>db := ?da, trace := trace ?wb @ [ECall]\<rparr>) ''{amount:10}''
                (TransType ti_try) (Gid ti_try) (BranchID ti_try) (BranchType ti_try))"
  have h1: "BeginTx w_empty = (Inr None, ?wa)"
    by (simp add: eval_defs w_empty_def)
  have h2: "insertBarrier ?wa (TransType ti_try) (Gid ti_try) (BranchID ti_try)
              (originType (BranchType ti_try)) (BranchType ti_try) = (Inr (0, None), ?wa)"
    by (simp add: eval_defs ti_try_def)
  have h3: "\<not> ((BranchType ti_try = ''cancel'' \<or> BranchType ti_try = ''compensate'') \<and> (0::int) > 0)"
    by simp
  have h4: "insertBarrier ?wa (TransType ti_try) (Gid ti_try) (BranchID ti_try)
              (BranchType ti_try) (BranchType ti_try) = (Inr (1, None), ?wb)"
    by (simp add: eval_defs w_empty_def ti_try_def)
  have h5: "(1::int) \<noteq> 0"
    by simp
  have h6: "busi_fail (db w_empty)
              = (Return GoNil (Some (Err ''insufficient funds'')), ?da)"
    by (simp add: busi_fail_def w_empty_def world_of_def)
  have h7: "busi_amount (db w_empty) = (Return (Val (Json ''{amount:10}'')) None, ?da)"
    by (simp add: busi_amount_def w_empty_def world_of_def)
  have h8: "MustMarshalString lib0 (Val (Json ''{amount:10}'')) = Inr ''{amount:10}''"
    by (simp add: lib0_def)
  have h9: "exec_update (?wb\<lparr>db := ?da, trace := trace ?wb @ [ECall]\<rparr>) ''{amount:10}''
              (TransType ti_try) (Gid ti_try) (BranchID ti_try) (BranchType ti_try)
            = (Inr None, ?wc)"
    by (simp add: eval_defs w_empty_def ti_try_def)
  have e1: "fst (BeginTx w_empty) = Inr None"
    by (simp add: eval_defs w_empty_def)
  have e2: "fst (insertBarrier ?wa ''tcc'' ''g1'' ''b1'' ''try'' ''try'') = Inr (1, None)"
    by (simp add: eval_defs w_empty_def)
  have failed: "\<forall>res. fst (ThroughBarrierCall lib0 w_empty ti_try busi_fail) \<noteq> Return res None"
    by (simp add: run_defs)
  note bad = callback_gets_database_handle[where busiCall = busi_fail and l = lib0,
      OF h1 h2 h3 h4 h5 h6]
  note good = callback_gets_database_handle[where busiCall = busi_amount and l = lib0,
      OF h1 h2 h3 h4 h5 h7]
  have c1: "invocations (snd (ThroughBarrierCall lib0 w_empty ti_try busi_fail))
              = invocations w_empty + 1"
    using bad by blast
  have c2: "busi (db (snd (ThroughBarrierCall lib0 w_empty ti_try busi_fail))) = 1"
    using bad[THEN conjunct2, THEN conjunct1] by simp
  have c3: "db (snd (ThroughBarrierCall lib0 w_empty ti_try busi_fail)) = ?da"
    using bad failed by blast
  have pre: "Return (Val (Json ''{amount:10}'')) None = Return (Val (Json ''{amount:10}'')) None
      \<and> MustMarshalString lib0 (Val (Json ''{amount:10}'')) = Inr ''{amount:10}''
      \<and> exec_update (?wb\<lparr>db := ?da, trace := trace ?wb @ [ECall]\<rparr>) ''{amount:10}''
              (TransType ti_try) (Gid ti_try) (BranchID ti_try) (BranchType ti_try)
            = (Inr None, ?wc)"
    using h8 h9 by blast
  note committed = good[THEN conjunct2, THEN conjunct2, THEN conjunct2, THEN spec, THEN spec,
      THEN spec, THEN mp, OF pre]
  have c4: "fst (ThroughBarrierCall lib0 w_empty ti_try busi_amount)
              = Return (Val (Json ''{amount:10}'')) None"
    using committed[THEN conjunct1] by simp
  have c5: "db (snd (ThroughBarrierCall lib0 w_empty ti_try busi_amount))
              = \<lparr>barrier = [slot ''try'' ''try'' (Some ''{amount:10}'')], busi = 1\<rparr>"
    using committed[THEN conjunct2]
    by (simp add: own_row_def ti_try_def same_key_def slot_def)
  from e1 e2 h6 c1 c2 c3 h7 h8 c4 c5 show ?thesis by blast
qed

text \<open>
  Claim C3 (null compensation). A cancel or compensate call whose first claim, on the slot
  of its origin type, affects a row returns \<^verbatim>\<open>{"dtm_result": "SUCCESS"}\<close> and does not
  run the callback. A second such call, whose two claims affect no row and whose lookup
  finds its own row with no result payload, returns the same and does not run the
  callback either. In both, the error returned with the result is the one of the own
  claim: none when that claim did not fail, and then the transaction is committed.
\<close>

theorem null_compensation:
  "((BranchType ti = ''cancel'' \<or> BranchType ti = ''compensate'')
      \<and> BeginTx w = (Inr None, w0)
      \<and> insertBarrier w0 (TransType ti) (Gid ti) (BranchID ti)
           (originType (BranchType ti)) (BranchType ti) = (Inr (1, oerr), w1)
      \<and> insertBarrier w1 (TransType ti) (Gid ti) (BranchID ti) (BranchType ti) (BranchType ti)
           = (Inr (currentAffected, rerr), w2)
    \<longrightarrow> ThroughBarrierCall l w ti busiCall
          = (Return (MS [(''dtm_result'', ''SUCCESS'')]) rerr,
             if rerr = None then Commit w2 else Rollback w2)
        \<and> invocations (snd (ThroughBarrierCall l w ti busiCall)) = invocations w)
   \<and> ((BranchType ti = ''cancel'' \<or> BranchType ti = ''compensate'')
      \<and> BeginTx v = (Inr None, v0)
      \<and> insertBarrier v0 (TransType ti) (Gid ti) (BranchID ti)
           (originType (BranchType ti)) (BranchType ti) = (Inr (0, oerr'), v1)
      \<and> insertBarrier v1 (TransType ti) (Gid ti) (BranchID ti) (BranchType ti) (BranchType ti)
           = (Inr (0, rerr'), v2)
      \<and> query_result v2 (TransType ti) (Gid ti) (BranchID ti) (BranchType ti) (BranchType ti)
           = (Inr (None, None), v3)
    \<longrightarrow> ThroughBarrierCall l v ti busiCall
          = (Return (MS [(''dtm_result'', ''SUCCESS'')]) rerr',
             if rerr' = None then Commit v3 else Rollback v3)
        \<and> invocations (snd (ThroughBarrierCall l v ti busiCall)) = invocations v)"
proof (intro conjI impI)
  assume a: "(BranchType ti = ''cancel'' \<or> BranchType ti = ''compensate'')
      \<and> BeginTx w = (Inr None, w0)
      \<and> insertBarrier w0 (TransType ti) (Gid ti) (BranchID ti)
           (originType (BranchType ti)) (BranchType ti) = (Inr (1, oerr), w1)
      \<and> insertBarrier w1 (TransType ti) (Gid ti) (BranchID ti) (BranchType ti) (BranchType ti)
           = (Inr (currentAffected, rerr), w2)"
  then have run: "ThroughBarrierCall l w ti busiCall
          = (Return (MS [(''dtm_result'', ''SUCCESS'')]) rerr,
             if rerr = None then Commit w2 else Rollback w2)"
    by (auto simp add: ThroughBarrierCall_def ThroughBarrierCall_body_def)
  from a have "invocations w2 = invocations w"
    using call_world by blast
  with run show "ThroughBarrierCall l w ti busiCall
          = (Return (MS [(''dtm_result'', ''SUCCESS'')]) rerr,
             if rerr = None then Commit w2 else Rollback w2)"
    and "invocations (snd (ThroughBarrierCall l w ti busiCall)) = invocations w"
    by simp_all
next
  assume a: "(BranchType ti = ''cancel'' \<or> BranchType ti = ''compensate'')
      \<and> BeginTx v = (Inr None, v0)
      \<and> insertBarrier v0 (TransType ti) (Gid ti) (BranchID ti)
           (originType (BranchType ti)) (BranchType ti) = (Inr (0, oerr'), v1)
      \<and> insertBarrier v1 (TransType ti) (Gid ti) (BranchID ti) (BranchType ti) (BranchType ti)
           = (Inr (0, rerr'), v2)
      \<and> query_result v2 (TransType ti) (Gid ti) (BranchID ti) (BranchType ti) (BranchType ti)
           = (Inr (None, None), v3)"
  then have run: "ThroughBarrierCall l v ti busiCall
          = (Return (MS [(''dtm_result'', ''SUCCESS'')]) rerr',
             if rerr' = None then Commit v3 else Rollback v3)"
    by (auto simp add: ThroughBarrierCall_def ThroughBarrierCall_body_def)
  from a have "invocations v2 = invocations v"
    using call_world by blast
  moreover from a have "invocations v3 = invocations v2"
    using query_result_frame by blast
  ultimately show "ThroughBarrierCall l v ti busiCall
          = (Return (MS [(''dtm_result'', ''SUCCESS'')]) rerr',
             if rerr' = None then Commit v3 else Rollback v3)"
    and "invocations (snd (ThroughBarrierCall l v ti busiCall)) = invocations v"
    using run by simp_all
qed

text \<open>The world a cancel leaves when it arrives before any try.\<close>

lemma first_cancel_world:
  "snd (ThroughBarrierCall lib0 w_empty ti_cancel busi_amount)
     = \<lparr>db = \<lparr>barrier = [slot ''try'' ''cancel'' None, slot ''cancel'' ''cancel'' None], busi = 0\<rparr>,
        pending = [], faults = [],
        trace = [EBegin, EInsert (slot ''try'' ''cancel'' None),
                 EInsert (slot ''cancel'' ''cancel'' None), ECommit]\<rparr>"
  by (simp add: run_defs)

text \<open>A cancel on the empty table, and the same cancel again on the world the first left.\<close>

theorem null_compensation_witness:
  "fst (insertBarrier (snd (BeginTx w_empty)) ''tcc'' ''g1'' ''b1'' ''try'' ''cancel'') = Inr (1, None)
   \<and> fst (ThroughBarrierCall lib0 w_empty ti_cancel busi_amount)
       = Return (MS [(''dtm_result'', ''SUCCESS'')]) None
   \<and> invocations (snd (ThroughBarrierCall lib0 w_empty ti_cancel busi_amount)) = 0
   \<and> fst (ThroughBarrierCall lib0 (snd (ThroughBarrierCall lib0 w_empty ti_cancel busi_amount))
           ti_cancel busi_amount)
       = Return (MS [(''dtm_result'', ''SUCCESS'')]) None
   \<and> invocations (snd (ThroughBarrierCall lib0
         (snd (ThroughBarrierCall lib0 w_empty ti_cancel busi_amount)) ti_cancel busi_amount)) = 0"
proof -
  let ?wb = "snd (BeginTx w_empty)"
  let ?wc = "snd (insertBarrier ?wb ''tcc'' ''g1'' ''b1'' ''try'' ''cancel'')"
  let ?wd = "snd (insertBarrier ?wc ''tcc'' ''g1'' ''b1'' ''cancel'' ''cancel'')"
  let ?va = "snd (ThroughBarrierCall lib0 w_empty ti_cancel busi_amount)"
  let ?vb = "snd (BeginTx ?va)"
  let ?vc = "snd (insertBarrier ?vb ''tcc'' ''g1'' ''b1'' ''try'' ''cancel'')"
  let ?vd = "snd (insertBarrier ?vc ''tcc'' ''g1'' ''b1'' ''cancel'' ''cancel'')"
  let ?ve = "snd (query_result ?vd ''tcc'' ''g1'' ''b1'' ''cancel'' ''cancel'')"
  have bt: "BranchType ti_cancel = ''cancel'' \<or> BranchType ti_cancel = ''compensate''"
    by (simp add: ti_cancel_def)
  have a1: "BeginTx w_empty = (Inr None, ?wb)"
    by (simp add: eval_defs w_empty_def)
  have a2: "insertBarrier ?wb (TransType ti_cancel) (Gid ti_cancel) (BranchID ti_cancel)
              (originType (BranchType ti_cancel)) (BranchType ti_cancel) = (Inr (1, None), ?wc)"
    by (simp add: eval_defs w_empty_def ti_cancel_def)
  have a3: "insertBarrier ?wc (TransType ti_cancel) (Gid ti_cancel) (BranchID ti_cancel)
              (BranchType ti_cancel) (BranchType ti_cancel) = (Inr (1, None), ?wd)"
    by (simp add: eval_defs w_empty_def ti_cancel_def)
  have b1: "BeginTx ?va = (Inr None, ?vb)"
    unfolding first_cancel_world by (simp add: eval_defs)
  have b2: "insertBarrier ?vb (TransType ti_cancel) (Gid ti_cancel) (BranchID ti_cancel)
              (originType (BranchType ti_cancel)) (BranchType ti_cancel) = (Inr (0, None), ?vc)"
    unfolding first_cancel_world by (simp add: eval_defs ti_cancel_def)
  have b3: "insertBarrier ?vc (TransType ti_cancel) (Gid ti_cancel) (BranchID ti_cancel)
              (BranchType ti_cancel) (BranchType ti_cancel) = (Inr (0, None), ?vd)"
    unfolding first_cancel_world by (simp add: eval_defs ti_cancel_def)
  have b4: "query_result ?vd (TransType ti_cancel) (Gid ti_cancel) (BranchID ti_cancel)
              (BranchType ti_cancel) (BranchType ti_cancel) = (Inr (None, None), ?ve)"
    unfolding first_cancel_world by (simp add: eval_defs ti_cancel_def)
  have e2: "fst (insertBarrier ?wb ''tcc'' ''g1'' ''b1'' ''try'' ''cancel'') = Inr (1, None)"
    by (simp add: eval_defs w_empty_def)
  have i0: "invocations w_empty = 0"
    by (simp add: eval_defs w_empty_def)
  note both = null_compensation[where l = lib0 and busiCall = busi_amount and ti = ti_cancel
      and w = w_empty and ?w0.0 = ?wb and ?w1.0 = ?wc and ?w2.0 = ?wd
      and oerr = None and rerr = None and currentAffected = 1
      and v = ?va and ?v0.0 = ?vb and ?v1.0 = ?vc and ?v2.0 = ?vd and ?v3.0 = ?ve
      and oerr' = None and rerr' = None]
  have pre1: "(BranchType ti_cancel = ''cancel'' \<or> BranchType ti_cancel = ''compensate'')
      \<and> BeginTx w_empty = (Inr None, ?wb)
      \<and> insertBarrier ?wb (TransType ti_cancel) (Gid ti_cancel) (BranchID ti_cancel)
           (originType (BranchType ti_cancel)) (BranchType ti_cancel) = (Inr (1, None), ?wc)
      \<and> insertBarrier ?wc (TransType ti_cancel) (Gid ti_cancel) (BranchID ti_cancel)
           (BranchType ti_cancel) (BranchType ti_cancel) = (Inr (1, None), ?wd)"
    using bt a1 a2 a3 by blast
  have pre2: "(BranchType ti_cancel = ''cancel'' \<or> BranchType ti_cancel = ''compensate'')
      \<and> BeginTx ?va = (Inr None, ?vb)
      \<and> insertBarrier ?vb (TransType ti_cancel) (Gid ti_cancel) (BranchID ti_cancel)
           (originType (BranchType ti_cancel)) (BranchType ti_cancel) = (Inr (0, None), ?vc)
      \<and> insertBarrier ?vc (TransType ti_cancel) (Gid ti_cancel) (BranchID ti_cancel)
           (BranchType ti_cancel) (BranchType ti_cancel) = (Inr (0, None), ?vd)
      \<and> query_result ?vd (TransType ti_cancel) (Gid ti_cancel) (BranchID ti_cancel)
           (BranchType ti_cancel) (BranchType ti_cancel) = (Inr (None, None), ?ve)"
    using bt b1 b2 b3 b4 by blast
  note first = both[THEN conjunct1, THEN mp, OF pre1]
  note second = both[THEN conjunct2, THEN mp, OF pre2]
  have c1: "fst (ThroughBarrierCall lib0 w_empty ti_cancel busi_amount)
              = Return (MS [(''dtm_result'', ''SUCCESS'')]) None"
    using first[THEN conjunct1] by simp
  have c2: "invocations ?va = 0"
    using first[THEN conjunct2] i0 by simp
  have c3: "fst (ThroughBarrierCall lib0 ?va ti_cancel busi_amount)
              = Return (MS [(''dtm_result'', ''SUCCESS'')]) None"
    using second[THEN conjunct1] by simp
  have c4: "invocations (snd (ThroughBarrierCall lib0 ?va ti_cancel busi_amount)) = 0"
    using second[THEN conjunct2] c2 by simp
  from e2 c1 c2 c3 c4 show ?thesis by blast
qed


section \<open>ThroughBarrierCall: one transaction around the body\<close>

text \<open>The body (lines 98 to 135) neither opens nor closes a transaction, however it ends.\<close>

lemma body_trace:
  assumes "ThroughBarrierCall_body l w0 ti f = (b, w1)"
  shows "\<exists>evs. trace w1 = trace w0 @ evs
           \<and> EBegin \<notin> set evs \<and> ECommit \<notin> set evs \<and> ERollback \<notin> set evs"
proof -
  obtain r1 wa where i1: "insertBarrier w0 (TransType ti) (Gid ti) (BranchID ti)
      (originType (BranchType ti)) (BranchType ti) = (r1, wa)"
    by (metis prod.exhaust)
  obtain r2 wb where i2: "insertBarrier wa (TransType ti) (Gid ti) (BranchID ti)
      (BranchType ti) (BranchType ti) = (r2, wb)"
    by (metis prod.exhaust)
  from insertBarrier_frame[OF i1] obtain e1 where
    t1: "trace wa = trace w0 @ e1" "EBegin \<notin> set e1" "ECommit \<notin> set e1" "ERollback \<notin> set e1"
    by blast
  from insertBarrier_frame[OF i2] obtain e2 where
    t2: "trace wb = trace wa @ e2" "EBegin \<notin> set e2" "ECommit \<notin> set e2" "ERollback \<notin> set e2"
    by blast
  let ?pre = "e1 @ e2"
  have tb: "trace wb = trace w0 @ ?pre" using t1(1) t2(1) by simp
  have clean: "EBegin \<notin> set ?pre" "ECommit \<notin> set ?pre" "ERollback \<notin> set ?pre"
    using t1 t2 by simp_all
  obtain qr wq where q: "query_result wb (TransType ti) (Gid ti) (BranchID ti)
      (BranchType ti) (BranchType ti) = (qr, wq)"
    by (metis prod.exhaust)
  have tq: "trace wq = trace w0 @ (?pre @ [ESelect (TransType ti) (Gid ti) (BranchID ti)
      (BranchType ti) (BranchType ti)])"
    using query_result_frame[OF q] tb by simp
  obtain r d' where c: "f (db wb) = (r, d')"
    by (metis prod.exhaust)
  let ?wc = "wb\<lparr>db := d', trace := trace wb @ [ECall]\<rparr>"
  have tc: "trace ?wc = trace w0 @ (?pre @ [ECall])" using tb by simp
  have tu: "trace wu = trace w0 @ (?pre @ [ECall, EUpdate sval (TransType ti) (Gid ti)
      (BranchID ti) (BranchType ti)])"
    if "exec_update ?wc sval (TransType ti) (Gid ti) (BranchID ti) (BranchType ti) = (ru, wu)"
    for sval ru wu
    using exec_update_frame[OF that] tc by simp
  have "w1 = wa \<or> w1 = wb \<or> w1 = wq \<or> w1 = ?wc
        \<or> (\<exists>sval ru. exec_update ?wc sval (TransType ti) (Gid ti) (BranchID ti) (BranchType ti)
              = (ru, w1))"
    using assms i1 i2 q c
    by (auto simp add: ThroughBarrierCall_body_def Let_def
             split: sum.splits prod.splits if_splits option.splits call_result.splits)
  then consider (a) "w1 = wa" | (b) "w1 = wb" | (q) "w1 = wq" | (c) "w1 = ?wc"
    | (u) sval ru where
        "exec_update ?wc sval (TransType ti) (Gid ti) (BranchID ti) (BranchType ti) = (ru, w1)"
    by blast
  then show ?thesis
  proof cases
    case a
    with t1 show ?thesis by blast
  next
    case b
    with tb clean show ?thesis by blast
  next
    case q
    with tq clean show ?thesis
      by (intro exI[of _ "?pre @ [ESelect (TransType ti) (Gid ti) (BranchID ti)
            (BranchType ti) (BranchType ti)]"]) simp
  next
    case c
    with tc clean show ?thesis
      by (intro exI[of _ "?pre @ [ECall]"]) simp
  next
    case u
    from tu[OF u] clean show ?thesis
      by (intro exI[of _ "?pre @ [ECall, EUpdate sval (TransType ti) (Gid ti)
            (BranchID ti) (BranchType ti)]"]) simp
  qed
qed

text \<open>
  The deferred function closes the transaction once: with a commit exactly when the call
  returns without an error.
\<close>

lemma deferred_closing:
  assumes "ThroughBarrierCall_deferred (b, w1) = (out, w')"
  shows "trace w' = trace w1
           @ [case out of Return res None \<Rightarrow> ECommit
              | Return res (Some e) \<Rightarrow> ERollback | Panics x \<Rightarrow> ERollback]"
  using assms
  by (cases b) (auto simp add: Commit_def Rollback_def split: if_splits)

text \<open>
  A panic of any step of the body is how the body ends: the two claims, the lookup,
  \<^verbatim>\<open>json.Unmarshal\<close>, the callback, \<^verbatim>\<open>MustMarshalString\<close> and the result write.
\<close>

lemma panic_at_origin_claim:
  assumes "insertBarrier w0 (TransType ti) (Gid ti) (BranchID ti)
             (originType (BranchType ti)) (BranchType ti) = (Inl x, w1)"
  shows "ThroughBarrierCall_body l w0 ti f = (Panicked x GoNil None, w1)"
  using assms by (simp add: ThroughBarrierCall_body_def)

lemma panic_at_own_claim:
  assumes "insertBarrier w0 (TransType ti) (Gid ti) (BranchID ti)
             (originType (BranchType ti)) (BranchType ti) = (Inr r1, w1)"
    and "insertBarrier w1 (TransType ti) (Gid ti) (BranchID ti) (BranchType ti) (BranchType ti)
           = (Inl x, w2)"
  shows "ThroughBarrierCall_body l w0 ti f = (Panicked x GoNil None, w2)"
  using assms by (cases r1) (simp add: ThroughBarrierCall_body_def)

lemma panic_at_lookup:
  assumes "insertBarrier w0 (TransType ti) (Gid ti) (BranchID ti)
             (originType (BranchType ti)) (BranchType ti) = (Inr (originAffected, oerr), w1)"
    and "\<not> ((BranchType ti = ''cancel'' \<or> BranchType ti = ''compensate'') \<and> originAffected > 0)"
    and "insertBarrier w1 (TransType ti) (Gid ti) (BranchID ti) (BranchType ti) (BranchType ti)
           = (Inr (0, rerr), w2)"
    and "query_result w2 (TransType ti) (Gid ti) (BranchID ti) (BranchType ti) (BranchType ti)
           = (Inl x, w3)"
  shows "ThroughBarrierCall_body l w0 ti f = (Panicked x GoNil rerr, w3)"
  using assms by (auto simp add: ThroughBarrierCall_body_def)

lemma panic_at_unmarshal:
  assumes "insertBarrier w0 (TransType ti) (Gid ti) (BranchID ti)
             (originType (BranchType ti)) (BranchType ti) = (Inr (originAffected, oerr), w1)"
    and "\<not> ((BranchType ti = ''cancel'' \<or> BranchType ti = ''compensate'') \<and> originAffected > 0)"
    and "insertBarrier w1 (TransType ti) (Gid ti) (BranchID ti) (BranchType ti) (BranchType ti)
           = (Inr (0, rerr), w2)"
    and "query_result w2 (TransType ti) (Gid ti) (BranchID ti) (BranchType ti) (BranchType ti)
           = (Inr (None, Some s), w3)"
    and "json_Unmarshal l s = Inl x"
  shows "ThroughBarrierCall_body l w0 ti f = (Panicked x GoNil rerr, w3)"
  using assms by (auto simp add: ThroughBarrierCall_body_def)

lemma panic_at_callback:
  assumes "insertBarrier w0 (TransType ti) (Gid ti) (BranchID ti)
             (originType (BranchType ti)) (BranchType ti) = (Inr (originAffected, oerr), w1)"
    and "\<not> ((BranchType ti = ''cancel'' \<or> BranchType ti = ''compensate'') \<and> originAffected > 0)"
    and "insertBarrier w1 (TransType ti) (Gid ti) (BranchID ti) (BranchType ti) (BranchType ti)
           = (Inr (currentAffected, rerr), w2)"
    and "currentAffected \<noteq> 0"
    and "f (db w2) = (Panics x, d')"
  shows "ThroughBarrierCall_body l w0 ti f
           = (Panicked x GoNil rerr, w2\<lparr>db := d', trace := trace w2 @ [ECall]\<rparr>)"
  using assms by (auto simp add: ThroughBarrierCall_body_def)

lemma panic_at_marshal:
  assumes "insertBarrier w0 (TransType ti) (Gid ti) (BranchID ti)
             (originType (BranchType ti)) (BranchType ti) = (Inr (originAffected, oerr), w1)"
    and "\<not> ((BranchType ti = ''cancel'' \<or> BranchType ti = ''compensate'') \<and> originAffected > 0)"
    and "insertBarrier w1 (TransType ti) (Gid ti) (BranchID ti) (BranchType ti) (BranchType ti)
           = (Inr (currentAffected, rerr), w2)"
    and "currentAffected \<noteq> 0"
    and "f (db w2) = (Return res None, d')"
    and "MustMarshalString l res = Inl x"
  shows "ThroughBarrierCall_body l w0 ti f
           = (Panicked x res None, w2\<lparr>db := d', trace := trace w2 @ [ECall]\<rparr>)"
  using assms by (auto simp add: ThroughBarrierCall_body_def)

lemma panic_at_result_write:
  assumes "insertBarrier w0 (TransType ti) (Gid ti) (BranchID ti)
             (originType (BranchType ti)) (BranchType ti) = (Inr (originAffected, oerr), w1)"
    and "\<not> ((BranchType ti = ''cancel'' \<or> BranchType ti = ''compensate'') \<and> originAffected > 0)"
    and "insertBarrier w1 (TransType ti) (Gid ti) (BranchID ti) (BranchType ti) (BranchType ti)
           = (Inr (currentAffected, rerr), w2)"
    and "currentAffected \<noteq> 0"
    and "f (db w2) = (Return res None, d')"
    and "MustMarshalString l res = Inr sval"
    and "exec_update (w2\<lparr>db := d', trace := trace w2 @ [ECall]\<rparr>) sval
           (TransType ti) (Gid ti) (BranchID ti) (BranchType ti) = (Inl x, w3)"
  shows "ThroughBarrierCall_body l w0 ti f = (Panicked x res None, w3)"
  using assms by (auto simp add: ThroughBarrierCall_body_def)

text \<open>
  Claim C5, as stated: every call opens one transaction before any claim; on every exit
  path it rolls back when it returns an error; and on a panic in any step it rolls back
  and panics again. When \<^verbatim>\<open>BeginTx\<close> fails the call returns that error at line 85, before
  the deferred function is set up: no transaction was opened and none is rolled back. And
  line 89 rolls back and panics again only when \<^verbatim>\<open>recover()\<close> is not nil: a callback that
  ends in \<^verbatim>\<open>panic(nil)\<close>, where the runtime keeps the nil, is recovered and not raised
  again; the call returns nil results and commits the claim of the slot.
\<close>

theorem begin_failure_and_nil_panic:
  "fst (ThroughBarrierCall lib0 w_beginfail ti_try busi_amount)
     = Return GoNil (Some (Err ''connection refused''))
   \<and> trace (snd (ThroughBarrierCall lib0 w_beginfail ti_try busi_amount)) = []
   \<and> db (snd (ThroughBarrierCall lib0 w_beginfail ti_try busi_amount)) = db w_beginfail
   \<and> fst (busi_nilpanic (db w_empty)) = Panics PanicNil
   \<and> fst (ThroughBarrierCall lib0 w_empty ti_try busi_nilpanic) = Return GoNil None
   \<and> trace (snd (ThroughBarrierCall lib0 w_empty ti_try busi_nilpanic))
       = [EBegin, EInsert (slot ''try'' ''try'' None), ECall, ECommit]
   \<and> barrier (db (snd (ThroughBarrierCall lib0 w_empty ti_try busi_nilpanic)))
       = [slot ''try'' ''try'' None]"
  by (simp add: run_defs)

text \<open>
  Claim C5, amended. Every call first tries to open one transaction, before any claim.
  When \<^verbatim>\<open>BeginTx\<close> returns an error, the call returns that error with a nil result, and
  when \<^verbatim>\<open>BeginTx\<close> panics, the call ends with that panic; in both nothing else is done:
  no claim, no commit, no rollback. When the transaction is open, the trace of the call
  is: the opening, then events that neither open nor close a transaction, then exactly
  one closing event, which is a commit when the call returns no error (a synthetic result
  included) and a rollback when it returns an error or panics. When a step of the body
  panics with a value that is not nil, the call rolls back and ends with the same panic.
  When a step panics with nil, the panic is recovered and not raised again: the call
  returns the named results as they were at that step, and commits when the error among
  them is nil, rolls back otherwise.
\<close>

theorem transactional_execution:
  "(BeginTx u = (Inl p, u0)
      \<longrightarrow> ThroughBarrierCall l u ti f = (Panics p, u0)
          \<and> trace u0 = trace u \<and> db u0 = db u)
   \<and> (BeginTx v = (Inr (Some e), v0)
      \<longrightarrow> ThroughBarrierCall l v ti f = (Return GoNil (Some e), v0)
          \<and> trace v0 = trace v \<and> db v0 = db v)
   \<and> (BeginTx w = (Inr None, w0)
      \<longrightarrow> (\<exists>evs. trace (snd (ThroughBarrierCall l w ti f))
                    = trace w @ [EBegin] @ evs
                      @ [case fst (ThroughBarrierCall l w ti f) of
                           Return res None \<Rightarrow> ECommit
                         | Return res (Some e') \<Rightarrow> ERollback
                         | Panics x \<Rightarrow> ERollback]
                \<and> EBegin \<notin> set evs \<and> ECommit \<notin> set evs \<and> ERollback \<notin> set evs)
          \<and> (\<forall>x res rerr w1.
                ThroughBarrierCall_body l w0 ti f = (Panicked x res rerr, w1) \<and> x \<noteq> PanicNil
                \<longrightarrow> ThroughBarrierCall l w ti f = (Panics x, Rollback w1))
          \<and> (\<forall>res rerr w1.
                ThroughBarrierCall_body l w0 ti f = (Panicked PanicNil res rerr, w1)
                \<longrightarrow> ThroughBarrierCall l w ti f
                      = (Return res rerr, if rerr = None then Commit w1 else Rollback w1)))"
proof (intro conjI impI allI)
  assume b: "BeginTx u = (Inl p, u0)"
  then show "ThroughBarrierCall l u ti f = (Panics p, u0)"
    by (simp add: ThroughBarrierCall_def)
  from BeginTx_frame[OF b] show "trace u0 = trace u" and "db u0 = db u"
    by simp_all
next
  assume b: "BeginTx v = (Inr (Some e), v0)"
  then show "ThroughBarrierCall l v ti f = (Return GoNil (Some e), v0)"
    by (simp add: ThroughBarrierCall_def)
  from BeginTx_frame[OF b] show "trace v0 = trace v" and "db v0 = db v"
    by simp_all
next
  assume b: "BeginTx w = (Inr None, w0)"
  obtain bd w1 where body: "ThroughBarrierCall_body l w0 ti f = (bd, w1)"
    by (metis prod.exhaust)
  obtain out w' where d: "ThroughBarrierCall_deferred (bd, w1) = (out, w')"
    by (metis prod.exhaust)
  from BeginTx_frame[OF b] have t0: "trace w0 = trace w @ [EBegin]"
    by simp
  from body_trace[OF body] obtain evs where
    tr: "trace w1 = trace w0 @ evs" and
    clean: "EBegin \<notin> set evs" "ECommit \<notin> set evs" "ERollback \<notin> set evs"
    by blast
  have run: "ThroughBarrierCall l w ti f = (out, w')"
    using b body d by (simp add: ThroughBarrierCall_def)
  have "trace (snd (ThroughBarrierCall l w ti f))
      = trace w @ [EBegin] @ evs
        @ [case fst (ThroughBarrierCall l w ti f) of
             Return res None \<Rightarrow> ECommit
           | Return res (Some e') \<Rightarrow> ERollback
           | Panics x \<Rightarrow> ERollback]"
    using deferred_closing[OF d] run tr t0 by simp
  with clean
  show "\<exists>evs. trace (snd (ThroughBarrierCall l w ti f))
                    = trace w @ [EBegin] @ evs
                      @ [case fst (ThroughBarrierCall l w ti f) of
                           Return res None \<Rightarrow> ECommit
                         | Return res (Some e') \<Rightarrow> ERollback
                         | Panics x \<Rightarrow> ERollback]
                \<and> EBegin \<notin> set evs \<and> ECommit \<notin> set evs \<and> ERollback \<notin> set evs"
    by blast
next
  fix x res rerr w1
  assume "BeginTx w = (Inr None, w0)"
    and "ThroughBarrierCall_body l w0 ti f = (Panicked x res rerr, w1) \<and> x \<noteq> PanicNil"
  then show "ThroughBarrierCall l w ti f = (Panics x, Rollback w1)"
    by (simp add: ThroughBarrierCall_def)
next
  fix res rerr w1
  assume "BeginTx w = (Inr None, w0)"
    and "ThroughBarrierCall_body l w0 ti f = (Panicked PanicNil res rerr, w1)"
  then show "ThroughBarrierCall l w ti f
               = (Return res rerr, if rerr = None then Commit w1 else Rollback w1)"
    by (simp add: ThroughBarrierCall_def)
qed

text \<open>
  A call whose \<^verbatim>\<open>BeginTx\<close> panics, one whose \<^verbatim>\<open>BeginTx\<close> returns an error, a try whose
  claim panics in the driver, a try whose callback panics, and a try whose callback ends
  in \<^verbatim>\<open>panic(nil)\<close>.
\<close>

theorem transactional_execution_witness:
  "fst (BeginTx w_begincrash) = Inl (Panic ''driver: bad connection'')
   \<and> fst (ThroughBarrierCall lib0 w_begincrash ti_try busi_amount)
       = Panics (Panic ''driver: bad connection'')
   \<and> trace (snd (ThroughBarrierCall lib0 w_begincrash ti_try busi_amount)) = []
   \<and> fst (BeginTx w_beginfail) = Inr (Some (Err ''connection refused''))
   \<and> fst (ThroughBarrierCall lib0 w_beginfail ti_try busi_amount)
       = Return GoNil (Some (Err ''connection refused''))
   \<and> trace (snd (ThroughBarrierCall lib0 w_beginfail ti_try busi_amount)) = []
   \<and> fst (BeginTx w_insertcrash) = Inr None
   \<and> fst (ThroughBarrierCall_body lib0 (snd (BeginTx w_insertcrash)) ti_try busi_amount)
       = Panicked (Panic ''driver: bad connection'') GoNil None
   \<and> fst (ThroughBarrierCall lib0 w_insertcrash ti_try busi_amount)
       = Panics (Panic ''driver: bad connection'')
   \<and> last (trace (snd (ThroughBarrierCall lib0 w_insertcrash ti_try busi_amount))) = ERollback
   \<and> invocations (snd (ThroughBarrierCall lib0 w_insertcrash ti_try busi_amount)) = 0
   \<and> fst (BeginTx w_empty) = Inr None
   \<and> fst (ThroughBarrierCall_body lib0 (snd (BeginTx w_empty)) ti_try busi_panic)
       = Panicked (Panic ''index out of range'') GoNil None
   \<and> fst (ThroughBarrierCall lib0 w_empty ti_try busi_panic)
       = Panics (Panic ''index out of range'')
   \<and> last (trace (snd (ThroughBarrierCall lib0 w_empty ti_try busi_panic))) = ERollback
   \<and> fst (ThroughBarrierCall_body lib0 (snd (BeginTx w_empty)) ti_try busi_nilpanic)
       = Panicked PanicNil GoNil None
   \<and> fst (ThroughBarrierCall lib0 w_empty ti_try busi_nilpanic) = Return GoNil None
   \<and> last (trace (snd (ThroughBarrierCall lib0 w_empty ti_try busi_nilpanic))) = ECommit"
proof -
  let ?ua = "snd (BeginTx w_begincrash)"
  let ?va = "snd (BeginTx w_beginfail)"
  let ?wa = "snd (BeginTx w_insertcrash)"
  let ?wb = "snd (ThroughBarrierCall_body lib0 ?wa ti_try busi_amount)"
  let ?wc = "snd (BeginTx w_empty)"
  let ?wd = "snd (ThroughBarrierCall_body lib0 ?wc ti_try busi_nilpanic)"
  let ?we = "snd (ThroughBarrierCall_body lib0 ?wc ti_try busi_panic)"
  let ?p = "Panic ''driver: bad connection''"
  let ?q = "Panic ''index out of range''"
  let ?e = "Err ''connection refused''"
  have h1: "BeginTx w_begincrash = (Inl ?p, ?ua)"
    by (simp add: eval_defs w_begincrash_def)
  have h2: "BeginTx w_beginfail = (Inr (Some ?e), ?va)"
    by (simp add: eval_defs w_beginfail_def)
  have h3: "BeginTx w_insertcrash = (Inr None, ?wa)"
    by (simp add: eval_defs w_insertcrash_def)
  have h4: "BeginTx w_empty = (Inr None, ?wc)"
    by (simp add: eval_defs w_empty_def)
  have b3: "ThroughBarrierCall_body lib0 ?wa ti_try busi_amount = (Panicked ?p GoNil None, ?wb)
            \<and> ?p \<noteq> PanicNil"
    by (simp add: run_defs)
  have b4: "ThroughBarrierCall_body lib0 ?wc ti_try busi_nilpanic
              = (Panicked PanicNil GoNil None, ?wd)"
    by (simp add: run_defs)
  have b5: "ThroughBarrierCall_body lib0 ?wc ti_try busi_panic = (Panicked ?q GoNil None, ?we)
            \<and> ?q \<noteq> PanicNil"
    by (simp add: run_defs)
  have e7: "fst (ThroughBarrierCall_body lib0 ?wc ti_try busi_panic) = Panicked ?q GoNil None"
    by (simp add: run_defs)
  have e1: "fst (BeginTx w_begincrash) = Inl ?p"
    by (simp add: eval_defs w_begincrash_def)
  have e2: "fst (BeginTx w_beginfail) = Inr (Some ?e)"
    by (simp add: eval_defs w_beginfail_def)
  have e3: "fst (BeginTx w_insertcrash) = Inr None"
    by (simp add: eval_defs w_insertcrash_def)
  have e4: "fst (BeginTx w_empty) = Inr None"
    by (simp add: eval_defs w_empty_def)
  have e5: "fst (ThroughBarrierCall_body lib0 ?wa ti_try busi_amount) = Panicked ?p GoNil None"
    by (simp add: run_defs)
  have e6: "fst (ThroughBarrierCall_body lib0 ?wc ti_try busi_nilpanic)
              = Panicked PanicNil GoNil None"
    by (simp add: run_defs)
  have t1: "trace w_begincrash = []" and t2: "trace w_beginfail = []"
    by (simp_all add: eval_defs w_begincrash_def w_beginfail_def)
  have i3: "invocations ?wb = 0"
    by (simp add: run_defs)
  note crash = transactional_execution[where u = w_begincrash and p = ?p and u0 = ?ua
      and v = w_beginfail and e = ?e and v0 = ?va and w = w_insertcrash and w0 = ?wa
      and l = lib0 and ti = ti_try and f = busi_amount]
  note nilp = transactional_execution[where u = w_begincrash and p = ?p and u0 = ?ua
      and v = w_beginfail and e = ?e and v0 = ?va and w = w_empty and w0 = ?wc
      and l = lib0 and ti = ti_try and f = busi_nilpanic]
  note busp = transactional_execution[where u = w_begincrash and p = ?p and u0 = ?ua
      and v = w_beginfail and e = ?e and v0 = ?va and w = w_empty and w0 = ?wc
      and l = lib0 and ti = ti_try and f = busi_panic]
  note c_begin = crash[THEN conjunct1, THEN mp, OF h1]
  note p_open = busp[THEN conjunct2, THEN conjunct2, THEN mp, OF h4]
  note p_panic = p_open[THEN conjunct2, THEN conjunct1, THEN spec, THEN spec, THEN spec,
      THEN spec, THEN mp, OF b5]
  have d1: "fst (ThroughBarrierCall lib0 w_empty ti_try busi_panic) = Panics ?q"
    using p_panic by simp
  have d2: "last (trace (snd (ThroughBarrierCall lib0 w_empty ti_try busi_panic))) = ERollback"
    using p_open[THEN conjunct1] d1 by auto
  note c_fail = crash[THEN conjunct2, THEN conjunct1, THEN mp, OF h2]
  note c_open = crash[THEN conjunct2, THEN conjunct2, THEN mp, OF h3]
  note n_open = nilp[THEN conjunct2, THEN conjunct2, THEN mp, OF h4]
  have c1: "fst (ThroughBarrierCall lib0 w_begincrash ti_try busi_amount) = Panics ?p"
    using c_begin[THEN conjunct1] by simp
  have c2: "trace (snd (ThroughBarrierCall lib0 w_begincrash ti_try busi_amount)) = []"
    using c_begin t1 by simp
  have c3: "fst (ThroughBarrierCall lib0 w_beginfail ti_try busi_amount) = Return GoNil (Some ?e)"
    using c_fail[THEN conjunct1] by simp
  have c4: "trace (snd (ThroughBarrierCall lib0 w_beginfail ti_try busi_amount)) = []"
    using c_fail t2 by simp
  note c_panic = c_open[THEN conjunct2, THEN conjunct1, THEN spec, THEN spec, THEN spec,
      THEN spec, THEN mp, OF b3]
  have c5: "fst (ThroughBarrierCall lib0 w_insertcrash ti_try busi_amount) = Panics ?p"
    using c_panic by simp
  have c6: "last (trace (snd (ThroughBarrierCall lib0 w_insertcrash ti_try busi_amount)))
              = ERollback"
    using c_open[THEN conjunct1] c5 by auto
  have c7: "invocations (snd (ThroughBarrierCall lib0 w_insertcrash ti_try busi_amount)) = 0"
    using c_panic i3 by simp
  note n_panic = n_open[THEN conjunct2, THEN conjunct2, THEN spec, THEN spec, THEN spec,
      THEN mp, OF b4]
  have c8: "fst (ThroughBarrierCall lib0 w_empty ti_try busi_nilpanic) = Return GoNil None"
    using n_panic by simp
  have c9: "last (trace (snd (ThroughBarrierCall lib0 w_empty ti_try busi_nilpanic))) = ECommit"
    using n_open[THEN conjunct1] c8 by auto
  from e1 c1 c2 e2 c3 c4 e3 e5 c5 c6 c7 e4 e7 d1 d2 e6 c8 c9 show ?thesis by blast
qed

section \<open>ThroughBarrierCall: a result that cannot be serialised\<close>

text \<open>With no store error, a first arrival makes the two claims return 0 and 1.\<close>

lemma first_arrival_ops:
  assumes "faults w = []" and "first_arrival (barrier (db w)) ti"
  shows "\<exists>w0 w1 w2.
           BeginTx w = (Inr None, w0)
         \<and> insertBarrier w0 (TransType ti) (Gid ti) (BranchID ti)
              (originType (BranchType ti)) (BranchType ti) = (Inr (0, None), w1)
         \<and> insertBarrier w1 (TransType ti) (Gid ti) (BranchID ti) (BranchType ti) (BranchType ti)
              = (Inr (1, None), w2)
         \<and> faults w2 = []"
  using assms
  by (auto simp add: BeginTx_def next_fault_def insertBarrier_def exec_insert_def tx_view_def
        same_key_def[abs_def] RowsAffected_def first_arrival_def claimed_def)

text \<open>
  And with no store error, the rows of a call that reaches line 129 are those of a first
  arrival.
\<close>

lemma reached_first_arrival:
  assumes "faults w = []"
    and "BeginTx w = (Inr None, w0)"
    and "insertBarrier w0 (TransType ti) (Gid ti) (BranchID ti)
           (originType (BranchType ti)) (BranchType ti) = (Inr (originAffected, oerr), w1)"
    and "\<not> ((BranchType ti = ''cancel'' \<or> BranchType ti = ''compensate'') \<and> originAffected > 0)"
    and "insertBarrier w1 (TransType ti) (Gid ti) (BranchID ti) (BranchType ti) (BranchType ti)
           = (Inr (currentAffected, rerr), w2)"
    and "currentAffected \<noteq> 0"
  shows "first_arrival (barrier (db w)) ti \<and> faults w2 = []"
  using assms
  by (auto simp add: BeginTx_def next_fault_def insertBarrier_def exec_insert_def tx_view_def
        same_key_def[abs_def] RowsAffected_def first_arrival_def claimed_def originType_def
        split: if_splits)

text \<open>The callback is run on no other path than that of line 129.\<close>

lemma body_invocations:
  assumes "ThroughBarrierCall_body l w0 ti f = (b, w')"
    and "invocations w' \<noteq> invocations w0"
  shows "\<exists>originAffected oerr w1 currentAffected rerr w2.
           insertBarrier w0 (TransType ti) (Gid ti) (BranchID ti)
             (originType (BranchType ti)) (BranchType ti) = (Inr (originAffected, oerr), w1)
         \<and> \<not> ((BranchType ti = ''cancel'' \<or> BranchType ti = ''compensate'') \<and> originAffected > 0)
         \<and> insertBarrier w1 (TransType ti) (Gid ti) (BranchID ti) (BranchType ti) (BranchType ti)
             = (Inr (currentAffected, rerr), w2)
         \<and> currentAffected \<noteq> 0"
proof -
  obtain r1 wa where i1: "insertBarrier w0 (TransType ti) (Gid ti) (BranchID ti)
      (originType (BranchType ti)) (BranchType ti) = (r1, wa)"
    by (metis prod.exhaust)
  obtain r2 wb where i2: "insertBarrier wa (TransType ti) (Gid ti) (BranchID ti)
      (BranchType ti) (BranchType ti) = (r2, wb)"
    by (metis prod.exhaust)
  obtain qr wq where q: "query_result wb (TransType ti) (Gid ti) (BranchID ti)
      (BranchType ti) (BranchType ti) = (qr, wq)"
    by (metis prod.exhaust)
  have inv: "invocations wa = invocations w0" "invocations wb = invocations w0"
    "invocations wq = invocations w0"
    using insertBarrier_frame[OF i1] insertBarrier_frame[OF i2] query_result_frame[OF q]
    by simp_all
  have "(\<exists>originAffected oerr currentAffected rerr.
            r1 = Inr (originAffected, oerr)
          \<and> \<not> ((BranchType ti = ''cancel'' \<or> BranchType ti = ''compensate'') \<and> originAffected > 0)
          \<and> r2 = Inr (currentAffected, rerr) \<and> currentAffected \<noteq> 0)
        \<or> w' = wa \<or> w' = wb \<or> w' = wq"
    using assms(1) i1 i2 q
    by (auto simp add: ThroughBarrierCall_body_def Let_def
             split: sum.splits prod.splits if_splits option.splits)
  with inv assms(2) i1 i2 show ?thesis by auto
qed

lemma ran_callback:
  assumes "invocations (snd (ThroughBarrierCall l w ti f)) \<noteq> invocations w"
  shows "\<exists>w0 originAffected oerr w1 currentAffected rerr w2.
           BeginTx w = (Inr None, w0)
         \<and> insertBarrier w0 (TransType ti) (Gid ti) (BranchID ti)
             (originType (BranchType ti)) (BranchType ti) = (Inr (originAffected, oerr), w1)
         \<and> \<not> ((BranchType ti = ''cancel'' \<or> BranchType ti = ''compensate'') \<and> originAffected > 0)
         \<and> insertBarrier w1 (TransType ti) (Gid ti) (BranchID ti) (BranchType ti) (BranchType ti)
             = (Inr (currentAffected, rerr), w2)
         \<and> currentAffected \<noteq> 0"
proof -
  obtain bx w0 where b: "BeginTx w = (bx, w0)"
    by (metis prod.exhaust)
  obtain bd w' where body: "ThroughBarrierCall_body l w0 ti f = (bd, w')"
    by (metis prod.exhaust)
  have i0: "invocations w0 = invocations w"
    using BeginTx_frame[OF b] by simp
  have closed: "invocations (snd (ThroughBarrierCall_deferred (bd, w'))) = invocations w'"
    by (cases bd) simp_all
  have opened: "bx = Inr None"
  proof (rule ccontr)
    assume "bx \<noteq> Inr None"
    then have "snd (ThroughBarrierCall l w ti f) = w0"
      using b by (auto simp add: ThroughBarrierCall_def split: sum.splits option.splits)
    with i0 assms show False by simp
  qed
  then have "ThroughBarrierCall l w ti f = ThroughBarrierCall_deferred (bd, w')"
    using b body by (simp add: ThroughBarrierCall_def)
  with closed i0 assms have "invocations w' \<noteq> invocations w0"
    by simp
  from body_invocations[OF body this] b opened show ?thesis
    by blast
qed

text \<open>
  The call whose callback succeeds and whose result \<^verbatim>\<open>MustMarshalString\<close> panics on, with
  a value that is not nil.
\<close>

lemma rolled_back_world:
  assumes "BeginTx w = (Inr None, w0)"
    and "insertBarrier w0 (TransType ti) (Gid ti) (BranchID ti)
           (originType (BranchType ti)) (BranchType ti) = (Inr (originAffected, oerr), w1)"
    and "\<not> ((BranchType ti = ''cancel'' \<or> BranchType ti = ''compensate'') \<and> originAffected > 0)"
    and "insertBarrier w1 (TransType ti) (Gid ti) (BranchID ti) (BranchType ti) (BranchType ti)
           = (Inr (currentAffected, rerr), w2)"
    and "currentAffected \<noteq> 0"
    and "busiCall (db w) = (Return res None, d')"
    and "MustMarshalString l res = Inl x"
    and "x \<noteq> PanicNil"
  shows "ThroughBarrierCall l w ti busiCall
           = (Panics x, Rollback (w2\<lparr>db := d', trace := trace w2 @ [ECall]\<rparr>))"
  using call_branch[OF assms(1-5), of l busiCall] assms(6-8)
  by simp

text \<open>
  Claim C6, as stated: whenever the callback succeeds and the serialisation of its result
  fails, the unit is rolled back and a later retry runs the callback again. A cancel
  arrives before any try, and its claim of the try slot fails with a store error, which
  line 103 drops: the callback runs and returns a channel, \<^verbatim>\<open>MustMarshalString\<close> panics,
  the unit is rolled back. In the retry no store operation fails: the claim of the try
  slot affects a row, and lines 106 to 108 return \<^verbatim>\<open>{"dtm_result": "SUCCESS"}\<close> without
  the callback. The retry does not run the callback either: when its \<^verbatim>\<open>BeginTx\<close> fails
  (the error is returned); when the callback of the first call has written, through the
  database handle it is given, a row on the slot into the barrier table (that write is
  not rolled back, and the retry returns \<^verbatim>\<open>{"dtm_result": "FAILURE"}\<close>); and when
  \<^verbatim>\<open>MustMarshalString\<close> panics with nil (line 89 does not raise it again: the first call
  returns the result of the callback and commits the claim, without a stored result, and
  the retry returns \<^verbatim>\<open>{"dtm_result": "SUCCESS"}\<close>).
\<close>

theorem retry_without_callback:
  "fst (ThroughBarrierCall lib0 w_poisonfail ti_cancel busi_chan)
       = Panics (Panic ''json: unsupported type: chan int'')
   \<and> trace (snd (ThroughBarrierCall lib0 w_poisonfail ti_cancel busi_chan))
       = [EBegin, EInsert (slot ''try'' ''cancel'' None), EInsert (slot ''cancel'' ''cancel'' None),
          ECall, ERollback]
   \<and> barrier (db (snd (ThroughBarrierCall lib0 w_poisonfail ti_cancel busi_chan))) = []
   \<and> faults (snd (ThroughBarrierCall lib0 w_poisonfail ti_cancel busi_chan)) = []
   \<and> fst (ThroughBarrierCall lib0
            (snd (ThroughBarrierCall lib0 w_poisonfail ti_cancel busi_chan)) ti_cancel busi_chan)
       = Return (MS [(''dtm_result'', ''SUCCESS'')]) None
   \<and> invocations (snd (ThroughBarrierCall lib0
            (snd (ThroughBarrierCall lib0 w_poisonfail ti_cancel busi_chan)) ti_cancel busi_chan))
       = invocations (snd (ThroughBarrierCall lib0 w_poisonfail ti_cancel busi_chan))
   \<and> fst (ThroughBarrierCall lib0 w_retryfail ti_try busi_chan)
       = Panics (Panic ''json: unsupported type: chan int'')
   \<and> fst (ThroughBarrierCall lib0
            (snd (ThroughBarrierCall lib0 w_retryfail ti_try busi_chan)) ti_try busi_chan)
       = Return GoNil (Some (Err ''connection refused''))
   \<and> invocations (snd (ThroughBarrierCall lib0
            (snd (ThroughBarrierCall lib0 w_retryfail ti_try busi_chan)) ti_try busi_chan))
       = invocations (snd (ThroughBarrierCall lib0 w_retryfail ti_try busi_chan))
   \<and> fst (ThroughBarrierCall lib0 w_empty ti_try busi_meddle)
       = Panics (Panic ''json: unsupported type: chan int'')
   \<and> barrier (db (snd (ThroughBarrierCall lib0 w_empty ti_try busi_meddle)))
       = [slot ''try'' ''cancel'' None]
   \<and> fst (ThroughBarrierCall lib0
            (snd (ThroughBarrierCall lib0 w_empty ti_try busi_meddle)) ti_try busi_meddle)
       = Return (MS [(''dtm_result'', ''FAILURE'')]) None
   \<and> invocations (snd (ThroughBarrierCall lib0
            (snd (ThroughBarrierCall lib0 w_empty ti_try busi_meddle)) ti_try busi_meddle))
       = invocations (snd (ThroughBarrierCall lib0 w_empty ti_try busi_meddle))
   \<and> MustMarshalString lib_nil (Val Chan) = Inl PanicNil
   \<and> fst (ThroughBarrierCall lib_nil w_empty ti_try busi_chan) = Return (Val Chan) None
   \<and> trace (snd (ThroughBarrierCall lib_nil w_empty ti_try busi_chan))
       = [EBegin, EInsert (slot ''try'' ''try'' None), ECall, ECommit]
   \<and> barrier (db (snd (ThroughBarrierCall lib_nil w_empty ti_try busi_chan)))
       = [slot ''try'' ''try'' None]
   \<and> fst (ThroughBarrierCall lib_nil
            (snd (ThroughBarrierCall lib_nil w_empty ti_try busi_chan)) ti_try busi_chan)
       = Return (MS [(''dtm_result'', ''SUCCESS'')]) None
   \<and> invocations (snd (ThroughBarrierCall lib_nil
            (snd (ThroughBarrierCall lib_nil w_empty ti_try busi_chan)) ti_try busi_chan))
       = invocations (snd (ThroughBarrierCall lib_nil w_empty ti_try busi_chan))"
  by (simp add: run_defs)

text \<open>
  Claim C6, amended. When a call runs the callback, the callback returns a result without
  error, and \<^verbatim>\<open>MustMarshalString\<close> panics on that result with a value that is not nil:
  the call ends with that panic, the transaction is rolled back, and the database is what
  the callback left, with no claim of the barrier in it. When moreover no store operation
  fails, in the call or after it, and the callback left the barrier table as it was, a
  retry of the same call, with any callback, runs that callback.
\<close>

theorem serialization_failure_rolls_back:
  assumes "invocations (snd (ThroughBarrierCall l w ti busiCall)) \<noteq> invocations w"
    and "busiCall (db w) = (Return res None, d')"
    and "MustMarshalString l res = Inl x"
    and "x \<noteq> PanicNil"
  shows "fst (ThroughBarrierCall l w ti busiCall) = Panics x
       \<and> last (trace (snd (ThroughBarrierCall l w ti busiCall))) = ERollback
       \<and> db (snd (ThroughBarrierCall l w ti busiCall)) = d'
       \<and> (faults w = [] \<and> barrier d' = barrier (db w)
            \<longrightarrow> invocations (snd (ThroughBarrierCall l
                    (snd (ThroughBarrierCall l w ti busiCall)) ti retry))
                = invocations (snd (ThroughBarrierCall l w ti busiCall)) + 1)"
proof -
  let ?w' = "snd (ThroughBarrierCall l w ti busiCall)"
  from ran_callback[OF assms(1)] obtain w0 originAffected oerr w1 currentAffected rerr w2 where
    ops: "BeginTx w = (Inr None, w0)"
      "insertBarrier w0 (TransType ti) (Gid ti) (BranchID ti)
         (originType (BranchType ti)) (BranchType ti) = (Inr (originAffected, oerr), w1)"
      "\<not> ((BranchType ti = ''cancel'' \<or> BranchType ti = ''compensate'') \<and> originAffected > 0)"
      "insertBarrier w1 (TransType ti) (Gid ti) (BranchID ti) (BranchType ti) (BranchType ti)
         = (Inr (currentAffected, rerr), w2)"
      "currentAffected \<noteq> 0"
    by blast
  note run = rolled_back_world[where busiCall = busiCall and l = l, OF ops assms(2-4)]
  have w': "?w' = Rollback (w2\<lparr>db := d', trace := trace w2 @ [ECall]\<rparr>)"
    using run by simp
  have c1: "fst (ThroughBarrierCall l w ti busiCall) = Panics x"
    using run by simp
  have c2: "last (trace ?w') = ERollback"
    unfolding w' by (simp add: Rollback_def)
  have c3: "db ?w' = d'"
    unfolding w' by simp
  have c4: "invocations (snd (ThroughBarrierCall l ?w' ti retry)) = invocations ?w' + 1"
    if quiet: "faults w = [] \<and> barrier d' = barrier (db w)"
  proof -
    from reached_first_arrival[OF _ ops] quiet
    have first: "first_arrival (barrier (db w)) ti" and f2: "faults w2 = []"
      by simp_all
    have "faults ?w' = []"
      unfolding w' using f2 by (simp add: Rollback_def)
    moreover have "first_arrival (barrier (db ?w')) ti"
      using c3 first quiet by simp
    ultimately obtain v0 v1 v2 where
      again: "BeginTx ?w' = (Inr None, v0)"
        "insertBarrier v0 (TransType ti) (Gid ti) (BranchID ti)
           (originType (BranchType ti)) (BranchType ti) = (Inr (0, None), v1)"
        "insertBarrier v1 (TransType ti) (Gid ti) (BranchID ti) (BranchType ti) (BranchType ti)
           = (Inr (1, None), v2)"
      using first_arrival_ops by blast
    obtain out2 d2 where r2: "retry (db ?w') = (out2, d2)"
      by (metis prod.exhaust)
    have "\<not> ((BranchType ti = ''cancel'' \<or> BranchType ti = ''compensate'') \<and> (0::int) > 0)"
      and "(1::int) \<noteq> 0"
      by simp_all
    from call_effects[where busiCall = retry and l = l,
        OF again(1,2) this(1) again(3) this(2) r2]
    show ?thesis by blast
  qed
  from c1 c2 c3 c4 show ?thesis by blast
qed

text \<open>A try on the empty table whose callback returns a Go channel.\<close>

theorem serialization_failure_rolls_back_witness:
  "invocations (snd (ThroughBarrierCall lib0 w_empty ti_try busi_chan)) \<noteq> invocations w_empty
   \<and> busi_chan (db w_empty) = (Return (Val Chan) None, \<lparr>barrier = [], busi = 1\<rparr>)
   \<and> MustMarshalString lib0 (Val Chan) = Inl (Panic ''json: unsupported type: chan int'')
   \<and> Panic ''json: unsupported type: chan int'' \<noteq> PanicNil
   \<and> faults w_empty = [] \<and> barrier \<lparr>barrier = [], busi = 1::nat\<rparr> = barrier (db w_empty)
   \<and> fst (ThroughBarrierCall lib0 w_empty ti_try busi_chan)
       = Panics (Panic ''json: unsupported type: chan int'')
   \<and> last (trace (snd (ThroughBarrierCall lib0 w_empty ti_try busi_chan))) = ERollback
   \<and> db (snd (ThroughBarrierCall lib0 w_empty ti_try busi_chan)) = \<lparr>barrier = [], busi = 1\<rparr>
   \<and> invocations (snd (ThroughBarrierCall lib0
        (snd (ThroughBarrierCall lib0 w_empty ti_try busi_chan)) ti_try busi_chan))
       = invocations (snd (ThroughBarrierCall lib0 w_empty ti_try busi_chan)) + 1"
proof -
  have h1: "invocations (snd (ThroughBarrierCall lib0 w_empty ti_try busi_chan))
              \<noteq> invocations w_empty"
    by (simp add: run_defs)
  have h2: "busi_chan (db w_empty) = (Return (Val Chan) None, \<lparr>barrier = [], busi = 1\<rparr>)"
    by (simp add: busi_chan_def w_empty_def world_of_def)
  have h3: "MustMarshalString lib0 (Val Chan) = Inl (Panic ''json: unsupported type: chan int'')"
    by (simp add: lib0_def)
  have h4: "Panic ''json: unsupported type: chan int'' \<noteq> PanicNil"
    by simp
  have h5: "faults w_empty = []
              \<and> barrier \<lparr>barrier = [], busi = 1::nat\<rparr> = barrier (db w_empty)"
    by (simp add: w_empty_def world_of_def)
  note run = serialization_failure_rolls_back[where busiCall = busi_chan and retry = busi_chan
      and l = lib0, OF h1 h2 h3 h4]
  note again = run[THEN conjunct2, THEN conjunct2, THEN conjunct2, THEN mp, OF h5]
  from run again h1 h2 h3 h4 h5 show ?thesis by blast
qed

end
